theory Spec2Isabelle
  imports Main "HOL-Library.Sublist" "HOL-Library.AList" "HOL-Library.Monad_Syntax"
begin

section \<open>The certificate inspector of \<open>CertInspector.py\<close>\<close>

text \<open>
  The inspection functions of \<^verbatim>\<open>src/CertInspector.py\<close> are embedded as HOL functions.
  Everything the Python does beyond returning a value is explicit: an exception is the
  \<open>Inl\<close> branch of a sum, the module-level dictionary \<^verbatim>\<open>cert_cache\<close> is a map that is
  passed in and returned, and the network (the peer behind a socket, the CT aggregator
  behind \<^verbatim>\<open>requests.get\<close>) is a parameter, so that a statement about "every server"
  quantifies over it.
\<close>

subsection \<open>Exceptions and JSON values\<close>

text \<open>
  The exceptions that the modelled statements can raise, named as Python names them.
  \<open>OSError\<close> stands for the DNS and TCP failures of \<^verbatim>\<open>socket.create_connection\<close>
  (\<^verbatim>\<open>socket.gaierror\<close>, \<^verbatim>\<open>ConnectionRefusedError\<close>), \<open>TimeoutError\<close> for an expired
  socket or request timeout, \<open>SSLError\<close> for a failed handshake. All of them are subclasses
  of \<^verbatim>\<open>Exception\<close>, which is what the two \<^verbatim>\<open>except Exception\<close> handlers catch.
\<close>

datatype pyexn =
    OSError
  | TimeoutError
  | SSLError
  | RequestException
  | JSONDecodeError
  | KeyError string
  | IndexError
  | TypeError
  | ValueError

text \<open>
  What \<^verbatim>\<open>response.json()\<close> and \<^verbatim>\<open>json.dump\<close> work on. A Python dictionary keeps its
  insertion order, so an object is an association list. Numbers are integers here.
\<close>

datatype json =
    JNull
  | JBool bool
  | JInt int
  | JStr string
  | JArr "json list"
  | JObj "(string \<times> json) list"

text \<open>
  Python's \<^verbatim>\<open>len\<close> on a decoded JSON value: defined on lists, dictionaries and strings, a
  \<^verbatim>\<open>TypeError\<close> on \<^verbatim>\<open>None\<close>, booleans and numbers.
\<close>

fun py_len :: "json \<Rightarrow> pyexn + nat" where
  "py_len (JArr xs) = Inr (length xs)"
| "py_len (JObj kvs) = Inr (length kvs)"
| "py_len (JStr s) = Inr (length s)"
| "py_len JNull = Inl TypeError"
| "py_len (JBool b) = Inl TypeError"
| "py_len (JInt n) = Inl TypeError"

subsection \<open>The expiry status of the scan display\<close>

text \<open>
  The three status marks of line 160 are non-ASCII string literals in the source; here
  they are their UTF-8 bytes: U+2705 (white heavy check mark), U+26A0 U+FE0F (warning
  sign) and U+274C (cross mark).
\<close>

definition mark_healthy :: string where
  "mark_healthy = [CHR 0xE2, CHR 0x9C, CHR 0x85]"

definition mark_warning :: string where
  "mark_warning = [CHR 0xE2, CHR 0x9A, CHR 0xA0, CHR 0xEF, CHR 0xB8, CHR 0x8F]"

definition mark_expired :: string where
  "mark_expired = [CHR 0xE2, CHR 0x9D, CHR 0x8C]"

text \<open>
  Line 160 of \<^verbatim>\<open>main\<close>:
  \<^verbatim>\<open>expiry_status = A if days_left > 30 else B if days_left > 0 else C\<close>.
\<close>

definition expiry_status :: "int \<Rightarrow> string" where
  "expiry_status days_left =
     (if days_left > 30 then mark_healthy
      else if days_left > 0 then mark_warning
      else mark_expired)"

subsection \<open>Python dictionaries and substring tests\<close>

text \<open>
  A Python \<^verbatim>\<open>dict\<close> is an association list with distinct keys in insertion order.
  \<^verbatim>\<open>dict(pairs)\<close> inserts the pairs from left to right: a key that is already there keeps
  its position and takes the new value (\<open>AList.update\<close>).
\<close>

definition dict :: "('k \<times> 'v) list \<Rightarrow> ('k \<times> 'v) list" where
  "dict pairs = foldl (\<lambda>d (k, v). AList.update k v d) [] pairs"

text \<open>\<^verbatim>\<open>d.get(key, default)\<close>.\<close>

definition dict_get :: "('k \<times> 'v) list \<Rightarrow> 'k \<Rightarrow> 'v \<Rightarrow> 'v" where
  "dict_get d key dflt = (case map_of d key of None \<Rightarrow> dflt | Some v \<Rightarrow> v)"

text \<open>
  \<^verbatim>\<open>d1 == d2\<close> on dictionaries, as CPython computes it: the same number of entries, and
  every key of \<^verbatim>\<open>d1\<close> is a key of \<^verbatim>\<open>d2\<close> with an equal value. The order of insertion
  plays no part.
\<close>

definition dict_eq :: "('k \<times> 'v) list \<Rightarrow> ('k \<times> 'v) list \<Rightarrow> bool" where
  "dict_eq d1 d2 \<longleftrightarrow>
     length d1 = length d2 \<and> list_all (\<lambda>(k, v). map_of d2 k = Some v) d1"

text \<open>\<^verbatim>\<open>sub in s\<close> on strings: \<^verbatim>\<open>sub\<close> occurs in \<^verbatim>\<open>s\<close> as a contiguous block.\<close>

fun str_contains :: "string \<Rightarrow> string \<Rightarrow> bool" where
  "str_contains sub [] = (sub = [])"
| "str_contains sub (c # cs) = (prefix sub (c # cs) \<or> str_contains sub cs)"

subsection \<open>The peer certificate and the network\<close>

text \<open>
  A relative distinguished name as \<^verbatim>\<open>ssl\<close> reports it: a tuple of (name, value) pairs.
  The issuer and the subject of a certificate are tuples of such names.
\<close>

type_synonym rdn = "(string \<times> string) list"

text \<open>
  The dictionary returned by \<^verbatim>\<open>SSLSocket.getpeercert()\<close>, restricted to the keys that
  \<^verbatim>\<open>get_cert_info\<close> reads. A key that is absent is \<open>None\<close>.
\<close>

record peercert =
  pc_issuer :: "rdn list option"
  pc_subject :: "rdn list option"
  pc_notBefore :: "string option"
  pc_notAfter :: "string option"
  pc_serialNumber :: "string option"

text \<open>
  An established TLS session: what \<^verbatim>\<open>ssock.getpeercert()\<close> returns (\<open>None\<close> when the peer
  presented no certificate) and what \<^verbatim>\<open>ssock.cipher()\<close> returns (name, protocol, secret
  bits; \<open>None\<close> when there is none).
\<close>

record tls_session =
  getpeercert :: "peercert option"
  cipher :: "(string \<times> string \<times> int) option"

text \<open>
  A \<^verbatim>\<open>requests\<close> response: its status code and the outcome of \<^verbatim>\<open>response.json()\<close>.
\<close>

record response =
  status_code :: int
  response_json :: "pyexn + json"

text \<open>
  The network as the three library calls of the source see it.
  \<^item> \<open>create_connection address timeout\<close> is \<^verbatim>\<open>socket.create_connection\<close>; the timeout is
    \<open>None\<close> when the caller passes none.
  \<^item> \<open>wrap_socket sock server_hostname\<close> is \<^verbatim>\<open>context.wrap_socket\<close> of the default context:
    the handshake, with certificate validation.
  \<^item> \<open>requests_get url timeout\<close> is \<^verbatim>\<open>requests.get\<close>.
  A server may answer differently from one call to the next, so every call of a modelled
  function takes the network of its moment.
\<close>

record 'sock network =
  create_connection :: "string \<times> nat \<Rightarrow> nat option \<Rightarrow> pyexn + 'sock"
  wrap_socket :: "'sock \<Rightarrow> string \<Rightarrow> pyexn + tls_session"
  requests_get :: "string \<Rightarrow> nat option \<Rightarrow> pyexn + response"

subsection \<open>\<^verbatim>\<open>get_cert_info\<close>\<close>

text \<open>The dictionary built at lines 52 to 59.\<close>

record cert_info =
  domain :: string
  issuer :: string
  valid_from :: string
  valid_to :: string
  serial_number :: string
  is_self_signed :: bool

text \<open>The module-level \<^verbatim>\<open>cert_cache = {}\<close>.\<close>

type_synonym cert_cache = "string \<rightharpoonup> cert_info"

text \<open>
  \<^verbatim>\<open>(x[0] for x in names)\<close>: the first pair of every relative distinguished name; an
  empty one raises \<^verbatim>\<open>IndexError\<close>.
\<close>

fun first_attrs :: "rdn list \<Rightarrow> pyexn + (string \<times> string) list" where
  "first_attrs [] = Inr []"
| "first_attrs ([] # xs) = Inl IndexError"
| "first_attrs ((p # ps) # xs) =
     (case first_attrs xs of Inl e \<Rightarrow> Inl e | Inr rest \<Rightarrow> Inr (p # rest))"

text \<open>
  Lines 49 to 59, in the order in which Python evaluates them: the two dictionaries, then
  the entries of the literal from top to bottom. Subscripting \<^verbatim>\<open>None\<close> is a
  \<^verbatim>\<open>TypeError\<close>, a missing key a \<^verbatim>\<open>KeyError\<close>.
\<close>

definition parse_cert :: "string \<Rightarrow> peercert option \<Rightarrow> pyexn + cert_info" where
  "parse_cert dname cert =
     (case cert of None \<Rightarrow> Inl TypeError | Some c \<Rightarrow>
      (case pc_issuer c of None \<Rightarrow> Inl (KeyError ''issuer'') | Some iss \<Rightarrow>
       (case first_attrs iss of Inl e \<Rightarrow> Inl e | Inr ipairs \<Rightarrow>
        (case pc_subject c of None \<Rightarrow> Inl (KeyError ''subject'') | Some sub \<Rightarrow>
         (case first_attrs sub of Inl e \<Rightarrow> Inl e | Inr spairs \<Rightarrow>
          (case pc_notBefore c of None \<Rightarrow> Inl (KeyError ''notBefore'') | Some nb \<Rightarrow>
           (case pc_notAfter c of None \<Rightarrow> Inl (KeyError ''notAfter'') | Some na \<Rightarrow>
            Inr \<lparr> domain = dname,
                  issuer = dict_get (dict ipairs) ''organizationName'' ''Unknown'',
                  valid_from = nb,
                  valid_to = na,
                  serial_number = (case pc_serialNumber c of None \<Rightarrow> ''N/A'' | Some n \<Rightarrow> n),
                  is_self_signed = dict_eq (dict ipairs) (dict spairs) \<rparr>)))))))"

text \<open>
  \<^verbatim>\<open>get_cert_info(domain)\<close>, lines 38 to 62. The result is the value returned or the
  exception raised, together with the cache after the call. The parameter \<^verbatim>\<open>domain\<close> is
  \<open>dname\<close> here.
\<close>

definition get_cert_info ::
  "'sock network \<Rightarrow> cert_cache \<Rightarrow> string \<Rightarrow> (pyexn + cert_info) \<times> cert_cache" where
  "get_cert_info net cache dname =
     (case cache dname of
        Some cached \<Rightarrow> (Inr cached, cache)
      | None \<Rightarrow>
         (case create_connection net (dname, 443) None of
            Inl e \<Rightarrow> (Inl e, cache)
          | Inr sock \<Rightarrow>
             (case wrap_socket net sock dname of
                Inl e \<Rightarrow> (Inl e, cache)
              | Inr ssock \<Rightarrow>
                 (case parse_cert dname (getpeercert ssock) of
                    Inl e \<Rightarrow> (Inl e, cache)
                  | Inr info \<Rightarrow> (Inr info, cache(dname \<mapsto> info))))))"

subsection \<open>\<^verbatim>\<open>check_cert_transparency\<close> and \<^verbatim>\<open>analyze_cipher_strength\<close>\<close>

text \<open>
  \<^verbatim>\<open>try: body except Exception as e: print(...); return fallback\<close>. Every exception of
  \<open>pyexn\<close> is an \<^verbatim>\<open>Exception\<close>, so the handler takes all of them. The line printed to
  standard output is not part of the model.
\<close>

definition except_Exception :: "pyexn + 'a \<Rightarrow> 'a \<Rightarrow> pyexn + 'a" where
  "except_Exception body fallback =
     (case body of Inl e \<Rightarrow> Inr fallback | Inr v \<Rightarrow> Inr v)"

text \<open>\<^verbatim>\<open>CRTSH_URL.format(domain)\<close> with \<^verbatim>\<open>CRTSH_URL = "https://crt.sh/?q={}&output=json"\<close>.\<close>

definition CRTSH_URL :: "string \<Rightarrow> string" where
  "CRTSH_URL dname = ''https://crt.sh/?q='' @ dname @ ''&output=json''"

text \<open>
  \<^verbatim>\<open>check_cert_transparency(domain)\<close>, lines 64 to 71. The conditional expression tests the
  status code first and calls \<^verbatim>\<open>response.json()\<close> only on status 200.
\<close>

definition check_cert_transparency :: "'sock network \<Rightarrow> string \<Rightarrow> pyexn + json" where
  "check_cert_transparency net dname =
     except_Exception
       (case requests_get net (CRTSH_URL dname) (Some 10) of
          Inl e \<Rightarrow> Inl e
        | Inr response \<Rightarrow>
            if status_code response = 200 then response_json response else Inr (JArr []))
       (JArr [])"

text \<open>The dictionary built at lines 80 to 85.\<close>

record cipher_info =
  cipher_name :: string
  protocol :: string
  bits :: int
  is_weak :: bool

text \<open>
  \<^verbatim>\<open>analyze_cipher_strength(domain)\<close>, lines 73 to 88. Subscripting the \<^verbatim>\<open>None\<close> that
  \<^verbatim>\<open>ssock.cipher()\<close> may return is a \<^verbatim>\<open>TypeError\<close>, caught like every other exception.
\<close>

definition analyze_cipher_strength ::
  "'sock network \<Rightarrow> string \<Rightarrow> pyexn + cipher_info option" where
  "analyze_cipher_strength net dname =
     except_Exception
       (case create_connection net (dname, 443) None of
          Inl e \<Rightarrow> Inl e
        | Inr sock \<Rightarrow>
           (case wrap_socket net sock dname of
              Inl e \<Rightarrow> Inl e
            | Inr ssock \<Rightarrow>
               (case cipher ssock of
                  None \<Rightarrow> Inl TypeError
                | Some (c0, c1, c2) \<Rightarrow>
                    Inr (Some \<lparr> cipher_name = c0,
                                protocol = c1,
                                bits = c2,
                                is_weak = (str_contains ''RC4'' c0 \<or> str_contains ''DES'' c0
                                           \<or> c2 < 128) \<rparr>))))
       None"

subsection \<open>Dates: the part of \<^verbatim>\<open>datetime\<close> that \<^verbatim>\<open>days_until_expiry\<close> uses\<close>

text \<open>
  A naive \<^verbatim>\<open>datetime\<close>. Python keeps the fields within their ranges (\<open>valid_datetime\<close>
  below); the fields are natural numbers for that reason.
\<close>

record datetime =
  year :: nat
  month :: nat
  day :: nat
  hour :: nat
  minute :: nat
  second :: nat
  microsecond :: nat

text \<open>The calendar helpers of the \<^verbatim>\<open>datetime\<close> module, under their names without the underscore.\<close>

definition is_leap :: "nat \<Rightarrow> bool" where
  "is_leap y \<longleftrightarrow> y mod 4 = 0 \<and> (y mod 100 \<noteq> 0 \<or> y mod 400 = 0)"

definition DAYS_IN_MONTH :: "nat list" where
  "DAYS_IN_MONTH = [31, 28, 31, 30, 31, 30, 31, 31, 30, 31, 30, 31]"

definition days_in_month :: "nat \<Rightarrow> nat \<Rightarrow> nat" where
  "days_in_month y m = (if m = 2 \<and> is_leap y then 29 else DAYS_IN_MONTH ! (m - 1))"





definition valid_datetime :: "datetime \<Rightarrow> bool" where
  "valid_datetime dt \<longleftrightarrow>
     1 \<le> year dt \<and> year dt \<le> 9999 \<and> 1 \<le> month dt \<and> month dt \<le> 12 \<and>
     1 \<le> day dt \<and> day dt \<le> days_in_month (year dt) (month dt) \<and>
     hour dt \<le> 23 \<and> minute dt \<le> 59 \<and> second dt \<le> 59 \<and> microsecond dt \<le> 999999"




subsection \<open>\<^verbatim>\<open>datetime.strptime\<close> with the certificate's date format\<close>

text \<open>
  \<^verbatim>\<open>strptime(s, "%b %d %H:%M:%S %Y %Z")\<close> turns the format into the regular expression
  \<^verbatim>\<open>(jan|...|dec)\s+(3[0-1]|[1-2]\d|0[1-9]|[1-9]| [1-9])\s+(2[0-3]|[0-1]\d|\d):([0-5]\d|\d):(6[0-1]|[0-5]\d|\d)\s+(\d\d\d\d)\s+(utc|gmt|...)\<close>,
  matched without regard to case against the whole string. Every number is followed by
  something that is no digit, so the match is the one that reads each number greedily and
  checks its range. The model is the C locale on ASCII input; of the time zone names it
  knows \<^verbatim>\<open>utc\<close> and \<^verbatim>\<open>gmt\<close>, not the names of the machine's local zone.
\<close>

definition is_space :: "char \<Rightarrow> bool" where
  "is_space c \<longleftrightarrow>
     (let n = (of_char c :: nat) in (9 \<le> n \<and> n \<le> 13) \<or> (28 \<le> n \<and> n \<le> 32))"

definition is_digit :: "char \<Rightarrow> bool" where
  "is_digit c \<longleftrightarrow> (let n = (of_char c :: nat) in 48 \<le> n \<and> n \<le> 57)"

definition digit_val :: "char \<Rightarrow> nat" where
  "digit_val c = of_char c - 48"

definition lower :: "char \<Rightarrow> char" where
  "lower c = (let n = (of_char c :: nat) in if 65 \<le> n \<and> n \<le> 90 then char_of (n + 32) else c)"

definition MONTHS :: "string list" where
  "MONTHS = [''jan'', ''feb'', ''mar'', ''apr'', ''may'', ''jun'',
             ''jul'', ''aug'', ''sep'', ''oct'', ''nov'', ''dec'']"

fun index_of :: "'a \<Rightarrow> 'a list \<Rightarrow> nat option" where
  "index_of x [] = None"
| "index_of x (y # ys) = (if x = y then Some 0 else map_option Suc (index_of x ys))"

text \<open>\<^verbatim>\<open>%b\<close>: the month, numbered from 1.\<close>

definition parse_b :: "string \<Rightarrow> (nat \<times> string) option" where
  "parse_b s = map_option (\<lambda>i. (i + 1, drop 3 s)) (index_of (map lower (take 3 s)) MONTHS)"

text \<open>\<^verbatim>\<open>\s+\<close>: one white space character or more.\<close>

definition parse_ws :: "string \<Rightarrow> string option" where
  "parse_ws s =
     (case s of [] \<Rightarrow> None
      | c # cs \<Rightarrow> if is_space c then Some (dropWhile is_space cs) else None)"

text \<open>One or two digits, as many as there are, with a value of at least \<open>lo\<close> and at most \<open>hi\<close>.\<close>

definition parse_num :: "nat \<Rightarrow> nat \<Rightarrow> string \<Rightarrow> (nat \<times> string) option" where
  "parse_num lo hi s =
     (let ds = takeWhile is_digit (take 2 s);
          v = foldl (\<lambda>a c. 10 * a + digit_val c) 0 ds
      in if ds = [] \<or> v < lo \<or> hi < v then None else Some (v, drop (length ds) s))"

definition parse_colon :: "string \<Rightarrow> string option" where
  "parse_colon s = (case s of [] \<Rightarrow> None | c # cs \<Rightarrow> if c = CHR '':'' then Some cs else None)"

text \<open>\<^verbatim>\<open>%Y\<close>: exactly four digits.\<close>

definition parse_Y :: "string \<Rightarrow> (nat \<times> string) option" where
  "parse_Y s =
     (let ds = take 4 s
      in if length ds = 4 \<and> list_all is_digit ds
         then Some (foldl (\<lambda>a c. 10 * a + digit_val c) 0 ds, drop 4 s) else None)"

text \<open>\<^verbatim>\<open>%Z\<close>, and the end of the string after it.\<close>

definition parse_Z :: "string \<Rightarrow> unit option" where
  "parse_Z s = (if map lower s \<in> set [''utc'', ''gmt''] then Some () else None)"

definition format_regex_match :: "string \<Rightarrow> (nat \<times> nat \<times> nat \<times> nat \<times> nat \<times> nat) option" where
  "format_regex_match s0 =
     do { (b, s1) \<leftarrow> parse_b s0;
          s2 \<leftarrow> parse_ws s1;
          (d, s3) \<leftarrow> parse_num 1 31 s2;
          s4 \<leftarrow> parse_ws s3;
          (H, s5) \<leftarrow> parse_num 0 23 s4;
          s6 \<leftarrow> parse_colon s5;
          (M, s7) \<leftarrow> parse_num 0 59 s6;
          s8 \<leftarrow> parse_colon s7;
          (S, s9) \<leftarrow> parse_num 0 61 s8;
          s10 \<leftarrow> parse_ws s9;
          (Y, s11) \<leftarrow> parse_Y s10;
          s12 \<leftarrow> parse_ws s11;
          _ \<leftarrow> parse_Z s12;
          Some (Y, b, d, H, M, S) }"

text \<open>
  A string that does not match is a \<^verbatim>\<open>ValueError\<close>, and so is one whose fields the
  \<^verbatim>\<open>datetime\<close> constructor refuses: the year 0, a day past the end of the month, a
  second of 60 or 61.
\<close>

definition strptime :: "string \<Rightarrow> pyexn + datetime" where
  "strptime s =
     (case format_regex_match s of
        None \<Rightarrow> Inl ValueError
      | Some (Y, b, d, H, M, S) \<Rightarrow>
          if Y < 1 \<or> days_in_month Y b < d \<or> 59 < S then Inl ValueError
          else Inr \<lparr> year = Y, month = b, day = d, hour = H, minute = M, second = S,
                     microsecond = 0 \<rparr>)"


subsection \<open>The exported report\<close>

text \<open>
  \<^verbatim>\<open>"%0wd" % v\<close> for a value of at most \<open>w\<close> digits, which is what the ranges of a
  \<^verbatim>\<open>datetime\<close>'s fields guarantee: the last \<open>w\<close> decimal digits, zeros in front.
\<close>

fun fmt_d :: "nat \<Rightarrow> nat \<Rightarrow> string" where
  "fmt_d 0 v = []"
| "fmt_d (Suc w) v = fmt_d w (v div 10) @ [char_of (48 + v mod 10)]"

text \<open>
  \<^verbatim>\<open>datetime.isoformat()\<close> of a naive value: the date, \<^verbatim>\<open>T\<close>, the time, and the
  microseconds only when they are not zero. No offset or zone designator follows.
\<close>

definition isoformat :: "datetime \<Rightarrow> string" where
  "isoformat dt =
     fmt_d 4 (year dt) @ ''-'' @ fmt_d 2 (month dt) @ ''-'' @ fmt_d 2 (day dt) @ ''T'' @
     fmt_d 2 (hour dt) @ '':'' @ fmt_d 2 (minute dt) @ '':'' @ fmt_d 2 (second dt) @
     (if microsecond dt \<noteq> 0 then ''.'' @ fmt_d 6 (microsecond dt) else [])"

text \<open>The two dictionaries as \<^verbatim>\<open>json.dump\<close> sees them, keys in insertion order.\<close>

definition cert_info_json :: "cert_info \<Rightarrow> json" where
  "cert_info_json ci =
     JObj [(''domain'', JStr (domain ci)),
           (''issuer'', JStr (issuer ci)),
           (''valid_from'', JStr (valid_from ci)),
           (''valid_to'', JStr (valid_to ci)),
           (''serial_number'', JStr (serial_number ci)),
           (''is_self_signed'', JBool (is_self_signed ci))]"

definition cipher_info_json :: "cipher_info option \<Rightarrow> json" where
  "cipher_info_json c =
     (case c of
        None \<Rightarrow> JNull
      | Some ci \<Rightarrow>
          JObj [(''cipher_name'', JStr (cipher_name ci)),
                (''protocol'', JStr (protocol ci)),
                (''bits'', JInt (bits ci)),
                (''is_weak'', JBool (is_weak ci))])"

text \<open>\<^verbatim>\<open>domain.replace('.', '_')\<close>.\<close>

definition replace_dots :: "string \<Rightarrow> string" where
  "replace_dots s = map (\<lambda>c. if c = CHR ''.'' then CHR ''_'' else c) s"

text \<open>
  The branch \<^verbatim>\<open>event == "Export JSON"\<close> of \<^verbatim>\<open>main\<close>, lines 186 to 201: the three calls in
  their order, each on the network of its moment, then the report and the name of the file
  it is dumped to. An exception of \<^verbatim>\<open>get_cert_info\<close> or of \<^verbatim>\<open>len\<close> is not caught in
  \<^verbatim>\<open>main\<close> and leaves the branch. The result is the file name with the report, or the
  exception, and the cache afterwards. Writing the file is not part of the model.
\<close>

definition export_json ::
  "'sock network \<Rightarrow> 'sock network \<Rightarrow> 'sock network \<Rightarrow> datetime \<Rightarrow> cert_cache \<Rightarrow> string \<Rightarrow>
     (pyexn + string \<times> json) \<times> cert_cache" where
  "export_json net1 net2 net3 now cache dname =
     (case get_cert_info net1 cache dname of
        (Inl e, cache1) \<Rightarrow> (Inl e, cache1)
      | (Inr info, cache1) \<Rightarrow>
         (case analyze_cipher_strength net2 dname of
            Inl e \<Rightarrow> (Inl e, cache1)
          | Inr cipher_info \<Rightarrow>
             (case check_cert_transparency net3 dname of
                Inl e \<Rightarrow> (Inl e, cache1)
              | Inr ct_logs \<Rightarrow>
                 (case py_len ct_logs of
                    Inl e \<Rightarrow> (Inl e, cache1)
                  | Inr n \<Rightarrow>
                     (Inr (''ssl_report_'' @ replace_dots dname @ ''.json'',
                           JObj [(''domain'', JStr dname),
                                 (''certificate'', cert_info_json info),
                                 (''cipher'', cipher_info_json cipher_info),
                                 (''ct_log_entries'', JInt (int n)),
                                 (''scan_time'', JStr (isoformat now))]),
                      cache1)))))"

text \<open>
  A process lifetime, as far as the cache is concerned, is a sequence of calls of
  \<^verbatim>\<open>get_cert_info\<close>, each with a domain and the network of its moment. \<open>cache_after\<close> is
  the cache such a sequence leaves.
\<close>

fun cache_after :: "cert_cache \<Rightarrow> ('sock network \<times> string) list \<Rightarrow> cert_cache" where
  "cache_after cache [] = cache"
| "cache_after cache ((net, dname) # calls) =
     cache_after (snd (get_cert_info net cache dname)) calls"

subsection \<open>Measures and shapes that the properties speak about\<close>


text \<open>
  The shape of an ISO 8601 date and time in the extended format:
  \<^verbatim>\<open>YYYY-MM-DDTHH:MM:SS\<close>, with or without a fraction of six digits.
\<close>

definition all_digits :: "nat \<Rightarrow> string \<Rightarrow> bool" where
  "all_digits n s \<longleftrightarrow> length s = n \<and> list_all is_digit s"

definition iso8601_shape :: "string \<Rightarrow> bool" where
  "iso8601_shape s \<longleftrightarrow>
     all_digits 4 (take 4 s) \<and> s ! 4 = CHR ''-'' \<and>
     all_digits 2 (take 2 (drop 5 s)) \<and> s ! 7 = CHR ''-'' \<and>
     all_digits 2 (take 2 (drop 8 s)) \<and> s ! 10 = CHR ''T'' \<and>
     all_digits 2 (take 2 (drop 11 s)) \<and> s ! 13 = CHR '':'' \<and>
     all_digits 2 (take 2 (drop 14 s)) \<and> s ! 16 = CHR '':'' \<and>
     all_digits 2 (take 2 (drop 17 s)) \<and>
     (length s = 19 \<or> length s = 26 \<and> s ! 19 = CHR ''.'' \<and> all_digits 6 (drop 20 s))"

subsection \<open>Servers for the examples\<close>

text \<open>
  A certificate of a certification authority for a site: the issuer and the subject name
  the same organisation and differ in the common name.
\<close>

definition site_cert :: peercert where
  "site_cert =
     \<lparr> pc_issuer = Some [[(''countryName'', ''US'')],
                          [(''organizationName'', ''Example Org'')],
                          [(''commonName'', ''Example CA'')]],
       pc_subject = Some [[(''organizationName'', ''Example Org'')],
                           [(''commonName'', ''www.example.com'')],
                           [(''countryName'', ''US'')]],
       pc_notBefore = Some ''Jan  1 00:00:00 2025 GMT'',
       pc_notAfter = Some ''Jan 31 01:00:00 2025 GMT'',
       pc_serialNumber = Some ''0A1B'' \<rparr>"

text \<open>The same subject written in another order, issued by itself.\<close>

definition own_cert :: peercert where
  "own_cert =
     \<lparr> pc_issuer = Some [[(''countryName'', ''US'')],
                          [(''commonName'', ''www.example.com'')],
                          [(''organizationName'', ''Example Org'')]],
       pc_subject = Some [[(''organizationName'', ''Example Org'')],
                           [(''commonName'', ''www.example.com'')],
                           [(''countryName'', ''US'')]],
       pc_notBefore = Some ''Jan  1 00:00:00 2025 GMT'',
       pc_notAfter = Some ''Jan 31 01:00:00 2025 GMT'',
       pc_serialNumber = None \<rparr>"

text \<open>
  A certificate whose names repeat the attribute \<^verbatim>\<open>domainComponent\<close>, as the names of a
  directory service do: the issuer lies under \<^verbatim>\<open>com\<close>, the subject under \<^verbatim>\<open>org\<close>.
\<close>

definition dc_cert :: peercert where
  "dc_cert =
     \<lparr> pc_issuer = Some [[(''domainComponent'', ''com'')],
                          [(''domainComponent'', ''corp'')],
                          [(''commonName'', ''Corp CA'')]],
       pc_subject = Some [[(''domainComponent'', ''org'')],
                           [(''domainComponent'', ''corp'')],
                           [(''commonName'', ''Corp CA'')]],
       pc_notBefore = Some ''Jan  1 00:00:00 2025 GMT'',
       pc_notAfter = Some ''Jan  1 00:00:00 2026 GMT'',
       pc_serialNumber = Some ''01'' \<rparr>"

text \<open>A certificate that lacks the end of its validity.\<close>

definition broken_cert :: peercert where
  "broken_cert = site_cert \<lparr> pc_notAfter := None \<rparr>"

text \<open>
  A server that accepts every connection, presents the given certificate and negotiates the
  given cipher, and an aggregator that answers every request with the given response.
\<close>

definition server ::
  "peercert option \<Rightarrow> (string \<times> string \<times> int) option \<Rightarrow> response \<Rightarrow> unit network" where
  "server cert ciph resp =
     \<lparr> create_connection = (\<lambda>address timeout. Inr ()),
       wrap_socket = (\<lambda>sock server_hostname. Inr \<lparr> getpeercert = cert, cipher = ciph \<rparr>),
       requests_get = (\<lambda>url timeout. Inr resp) \<rparr>"

text \<open>A network on which every operation fails with the given exception.\<close>

definition failing :: "pyexn \<Rightarrow> unit network" where
  "failing e =
     \<lparr> create_connection = (\<lambda>address timeout. Inl e),
       wrap_socket = (\<lambda>sock server_hostname. Inl e),
       requests_get = (\<lambda>url timeout. Inl e) \<rparr>"

text \<open>A server that accepts the connection and fails the handshake.\<close>

definition no_handshake :: "unit network" where
  "no_handshake = (failing SSLError) \<lparr> create_connection := (\<lambda>address timeout. Inr ()) \<rparr>"

text \<open>
  A host that accepts a connection only from a caller that set a timeout, and lets every
  other caller run into the time limit of the operating system.
\<close>

definition needs_deadline :: "unit network" where
  "needs_deadline =
     (failing TimeoutError)
       \<lparr> create_connection :=
           (\<lambda>address timeout. if timeout = None then Inl TimeoutError else Inr ()) \<rparr>"

definition empty_list_response :: response where
  "empty_list_response = \<lparr> status_code = 200, response_json = Inr (JArr []) \<rparr>"

definition two_entries_response :: response where
  "two_entries_response =
     \<lparr> status_code = 200,
       response_json = Inr (JArr [JObj [(''id'', JInt 1)], JObj [(''id'', JInt 2)]]) \<rparr>"

text \<open>An answer with status 200 whose body is the JSON text \<^verbatim>\<open>null\<close>.\<close>

definition null_response :: response where
  "null_response = \<lparr> status_code = 200, response_json = Inr JNull \<rparr>"

definition server_error_response :: response where
  "server_error_response = \<lparr> status_code = 500, response_json = Inl JSONDecodeError \<rparr>"

definition new_year_2025 :: datetime where
  "new_year_2025 =
     \<lparr> year = 2025, month = 1, day = 1, hour = 0, minute = 0, second = 0, microsecond = 0 \<rparr>"

section \<open>Properties\<close>

subsection \<open>Dictionaries\<close>

lemma foldl_update_distinct:
  "distinct (map fst acc) \<Longrightarrow>
   distinct (map fst (foldl (\<lambda>d (k, v). AList.update k v d) acc ps))"
  by (induction ps arbitrary: acc) (auto simp: distinct_update)

lemma dict_distinct: "distinct (map fst (dict ps))"
  by (simp add: dict_def foldl_update_distinct)

lemma foldl_update_map_of:
  "map_of (foldl (\<lambda>d (k, v). AList.update k v d) acc ps) = map_of acc ++ map_of (rev ps)"
  by (induction ps arbitrary: acc) (auto simp: update_conv')

text \<open>Of two pairs with the same key, the later one decides the value.\<close>

lemma map_of_dict: "map_of (dict ps) = map_of (rev ps)"
  by (simp add: dict_def foldl_update_map_of)

text \<open>
  Python's comparison of two dictionaries is the equality of their sets of entries,
  whatever the order of insertion.
\<close>

lemma dict_eq_iff_set:
  assumes "distinct (map fst d1)" "distinct (map fst d2)"
  shows "dict_eq d1 d2 \<longleftrightarrow> set d1 = set d2"
proof
  assume eq: "dict_eq d1 d2"
  have d1: "distinct d1" and d2: "distinct d2"
    using assms by (simp_all add: distinct_map)
  have sub: "set d1 \<subseteq> set d2"
    using eq by (auto simp: dict_eq_def list_all_iff dest: map_of_SomeD)
  have "card (set d1) = card (set d2)"
    using eq d1 d2 by (simp add: dict_eq_def distinct_card)
  with sub show "set d1 = set d2"
    by (simp add: card_subset_eq)
next
  assume eq: "set d1 = set d2"
  have "length d1 = length d2"
    using assms eq by (metis distinct_card distinct_map)
  moreover have "list_all (\<lambda>(k, v). map_of d2 k = Some v) d1"
    using assms(2) eq by (auto simp: list_all_iff)
  ultimately show "dict_eq d1 d2" by (simp add: dict_eq_def)
qed

lemma set_dict_distinct:
  assumes "distinct (map fst ps)"
  shows "set (dict ps) = set ps"
proof -
  have "distinct (map fst (rev ps))" using assms by (simp add: rev_map[symmetric])
  then have "set (dict ps) = set (rev ps)"
    using map_of_dict[of ps] dict_distinct[of ps] by (simp add: map_of_inject_set)
  then show ?thesis by simp
qed

lemma first_attrs_map_hd: "first_attrs xs = Inr ps \<Longrightarrow> ps = map hd xs"
  by (induction xs arbitrary: ps rule: first_attrs.induct) (auto split: sum.splits)

lemma map_hd_single: "list_all (\<lambda>x. length x = 1) xs \<Longrightarrow> map hd xs = concat xs"
proof (induction xs)
  case Nil
  then show ?case by simp
next
  case (Cons x xs)
  then obtain p where "x = [p]" by (cases x) auto
  with Cons show ?case by simp
qed

subsection \<open>The retriever and its cache\<close>

lemma parse_cert_self_signed:
  assumes "parse_cert d (Some c) = Inr r" "pc_issuer c = Some iss" "pc_subject c = Some sub"
  shows "is_self_signed r = dict_eq (dict (map hd iss)) (dict (map hd sub))"
proof -
  from assms obtain ip sp where ip: "first_attrs iss = Inr ip" and sp: "first_attrs sub = Inr sp"
    and r: "is_self_signed r = dict_eq (dict ip) (dict sp)"
    by (auto simp: parse_cert_def split: option.splits sum.splits)
  from r show ?thesis
    using first_attrs_map_hd[OF ip] first_attrs_map_hd[OF sp] by simp
qed

lemma get_cert_info_miss:
  assumes "cache d = None" "get_cert_info net cache d = (Inr r, cache')"
    "create_connection net (d, 443) None = Inr sock" "wrap_socket net sock d = Inr ssock"
  shows "parse_cert d (getpeercert ssock) = Inr r"
  using assms by (auto simp: get_cert_info_def split: sum.splits)

lemma get_cert_info_hit: "cache d = Some r \<Longrightarrow> get_cert_info net cache d = (Inr r, cache)"
  by (simp add: get_cert_info_def)

lemma get_cert_info_success:
  "get_cert_info net cache d = (Inr r, cache') \<Longrightarrow> cache' d = Some r"
  by (auto simp: get_cert_info_def split: option.splits sum.splits)

lemma get_cert_info_failure:
  "get_cert_info net cache d = (Inl e, cache') \<Longrightarrow> cache' = cache \<and> cache d = None"
  by (auto simp: get_cert_info_def split: option.splits sum.splits)

lemma get_cert_info_keeps:
  "cache d = Some r \<Longrightarrow> snd (get_cert_info net cache d') d = Some r"
  by (auto simp: get_cert_info_def split: option.splits sum.splits)

lemma cache_after_keeps:
  "cache d = Some r \<Longrightarrow> cache_after cache calls d = Some r"
proof (induction calls arbitrary: cache)
  case Nil
  then show ?case by simp
next
  case (Cons call calls)
  obtain net d' where call: "call = (net, d')" by (cases call)
  from Cons.prems have "snd (get_cert_info net cache d') d = Some r"
    by (rule get_cert_info_keeps)
  then show ?case unfolding call by (simp add: Cons.IH)
qed

lemma get_cert_info_only_reads_entry:
  "cache d = cache2 d \<Longrightarrow> fst (get_cert_info net cache d) = fst (get_cert_info net cache2 d)"
  by (auto simp: get_cert_info_def split: option.splits sum.splits)

subsection \<open>The status mark, the retriever and the correlator\<close>

lemma marks_distinct:
  "mark_healthy \<noteq> mark_warning" "mark_healthy \<noteq> mark_expired"
  "mark_warning \<noteq> mark_expired"
  by (simp_all add: mark_healthy_def mark_warning_def mark_expired_def)

text \<open>
  Claim C9. The status shown by the report layer is a function of the number of days
  remaining alone, and for every integer it is: the healthy mark exactly when the value is
  strictly greater than 30, the warning mark exactly when it lies in 1..30 inclusive, and
  the expired mark exactly when it is less than or equal to 0.
\<close>

theorem expiry_status_classification:
  "(expiry_status d = mark_healthy \<longleftrightarrow> 30 < d) \<and>
   (expiry_status d = mark_warning \<longleftrightarrow> 1 \<le> d \<and> d \<le> 30) \<and>
   (expiry_status d = mark_expired \<longleftrightarrow> d \<le> 0)"
  using marks_distinct by (auto simp: expiry_status_def)

text \<open>
  What the comparison at line 58 decides. A record that \<^verbatim>\<open>get_cert_info\<close> builds from a
  handshake (the domain was not in the cache) has \<^verbatim>\<open>is_self_signed\<close> true if and only if
  the two dictionaries that the function builds from the issuer and from the subject have
  the same entries, in whatever order the names list them. Each dictionary takes the first
  attribute of every relative distinguished name and maps a name that occurs more than
  once to its last value. When every relative distinguished name has one attribute and no
  attribute name occurs twice, this is the equality of the full attribute sets of issuer
  and subject, and not of the organisation names alone.
\<close>

lemma self_signed_iff_dicts_equal:
  assumes "cache d = None"
    and "create_connection net (d, 443) None = Inr sock"
    and "wrap_socket net sock d = Inr ssock"
    and "getpeercert ssock = Some c"
    and "pc_issuer c = Some iss" and "pc_subject c = Some sub"
    and "get_cert_info net cache d = (Inr r, cache')"
  shows "(is_self_signed r \<longleftrightarrow> set (dict (map hd iss)) = set (dict (map hd sub))) \<and>
         (is_self_signed r \<longleftrightarrow> map_of (rev (map hd iss)) = map_of (rev (map hd sub))) \<and>
         (list_all (\<lambda>x. length x = 1) iss \<and> list_all (\<lambda>x. length x = 1) sub \<and>
          distinct (map fst (concat iss)) \<and> distinct (map fst (concat sub)) \<longrightarrow>
            (is_self_signed r \<longleftrightarrow> set (concat iss) = set (concat sub)))"
proof -
  have "parse_cert d (Some c) = Inr r"
    using get_cert_info_miss[OF assms(1) assms(7) assms(2) assms(3)] assms(4) by simp
  then have eq: "is_self_signed r = dict_eq (dict (map hd iss)) (dict (map hd sub))"
    using assms(5,6) by (rule parse_cert_self_signed)
  have 1: "is_self_signed r \<longleftrightarrow> set (dict (map hd iss)) = set (dict (map hd sub))"
    unfolding eq by (rule dict_eq_iff_set) (rule dict_distinct)+
  have 2: "is_self_signed r \<longleftrightarrow> map_of (rev (map hd iss)) = map_of (rev (map hd sub))"
    unfolding 1 using map_of_inject_set[OF dict_distinct dict_distinct, of "map hd iss" "map hd sub"]
    by (simp add: map_of_dict)
  have 3: "is_self_signed r \<longleftrightarrow> set (concat iss) = set (concat sub)"
    if "list_all (\<lambda>x. length x = 1) iss" "list_all (\<lambda>x. length x = 1) sub"
      "distinct (map fst (concat iss))" "distinct (map fst (concat sub))"
    unfolding 1 using that by (simp add: map_hd_single set_dict_distinct)
  from 1 2 3 show ?thesis by blast
qed

text \<open>
  Two servers: one whose certificate lists the same three attributes in another order for
  issuer and subject (self-signed), and one whose issuer and subject share the
  organisation name and differ in the common name (not self-signed).
\<close>

lemma self_signed_iff_dicts_equal_examples:
  "fst (get_cert_info (server (Some own_cert) None empty_list_response) Map.empty
          ''www.example.com'')
     = Inr \<lparr> domain = ''www.example.com'', issuer = ''Example Org'',
             valid_from = ''Jan  1 00:00:00 2025 GMT'', valid_to = ''Jan 31 01:00:00 2025 GMT'',
             serial_number = ''N/A'', is_self_signed = True \<rparr> \<and>
   set (concat (the (pc_issuer own_cert))) = set (concat (the (pc_subject own_cert))) \<and>
   the (pc_issuer own_cert) \<noteq> the (pc_subject own_cert) \<and>
   fst (get_cert_info (server (Some site_cert) None empty_list_response) Map.empty
          ''www.example.com'')
     = Inr \<lparr> domain = ''www.example.com'', issuer = ''Example Org'',
             valid_from = ''Jan  1 00:00:00 2025 GMT'', valid_to = ''Jan 31 01:00:00 2025 GMT'',
             serial_number = ''0A1B'', is_self_signed = False \<rparr> \<and>
   set (concat (the (pc_issuer site_cert))) \<noteq> set (concat (the (pc_subject site_cert)))"
proof -
  let ?d = "''www.example.com''"
  let ?own = "server (Some own_cert) None empty_list_response"
  let ?site = "server (Some site_cert) None empty_list_response"
  define r1 where "r1 = projr (fst (get_cert_info ?own Map.empty ?d))"
  define r2 where "r2 = projr (fst (get_cert_info ?site Map.empty ?d))"
  have f1: "fst (get_cert_info ?own Map.empty ?d) = Inr r1"
    unfolding r1_def by code_simp
  have f2: "fst (get_cert_info ?site Map.empty ?d) = Inr r2"
    unfolding r2_def by code_simp
  have g1: "get_cert_info ?own Map.empty ?d = (Inr r1, snd (get_cert_info ?own Map.empty ?d))"
    using f1 by (simp add: prod_eq_iff)
  have g2: "get_cert_info ?site Map.empty ?d = (Inr r2, snd (get_cert_info ?site Map.empty ?d))"
    using f2 by (simp add: prod_eq_iff)
  have c1: "create_connection ?own (?d, 443) None = Inr ()"
    and c2: "create_connection ?site (?d, 443) None = Inr ()"
    by (simp_all add: server_def)
  have w1: "wrap_socket ?own () ?d = Inr \<lparr> getpeercert = Some own_cert, cipher = None \<rparr>"
    and w2: "wrap_socket ?site () ?d = Inr \<lparr> getpeercert = Some site_cert, cipher = None \<rparr>"
    by (simp_all add: server_def)
  have i1: "pc_issuer own_cert = Some (the (pc_issuer own_cert))"
    and s1: "pc_subject own_cert = Some (the (pc_subject own_cert))"
    and i2: "pc_issuer site_cert = Some (the (pc_issuer site_cert))"
    and s2: "pc_subject site_cert = Some (the (pc_subject site_cert))"
    by (simp_all add: own_cert_def site_cert_def)
  have own: "is_self_signed r1 \<longleftrightarrow>
      set (concat (the (pc_issuer own_cert))) = set (concat (the (pc_subject own_cert)))"
  proof (rule self_signed_iff_dicts_equal[OF _ c1 w1 _ i1 s1 g1,
        THEN conjunct2, THEN conjunct2, THEN mp])
    show "Map.empty ?d = None" by simp
    show "getpeercert \<lparr> getpeercert = Some own_cert, cipher = None \<rparr> = Some own_cert" by simp
    show "list_all (\<lambda>x. length x = 1) (the (pc_issuer own_cert)) \<and>
          list_all (\<lambda>x. length x = 1) (the (pc_subject own_cert)) \<and>
          distinct (map fst (concat (the (pc_issuer own_cert)))) \<and>
          distinct (map fst (concat (the (pc_subject own_cert))))"
      by (simp add: own_cert_def)
  qed
  have site: "is_self_signed r2 \<longleftrightarrow>
      set (concat (the (pc_issuer site_cert))) = set (concat (the (pc_subject site_cert)))"
  proof (rule self_signed_iff_dicts_equal[OF _ c2 w2 _ i2 s2 g2,
        THEN conjunct2, THEN conjunct2, THEN mp])
    show "Map.empty ?d = None" by simp
    show "getpeercert \<lparr> getpeercert = Some site_cert, cipher = None \<rparr> = Some site_cert" by simp
    show "list_all (\<lambda>x. length x = 1) (the (pc_issuer site_cert)) \<and>
          list_all (\<lambda>x. length x = 1) (the (pc_subject site_cert)) \<and>
          distinct (map fst (concat (the (pc_issuer site_cert)))) \<and>
          distinct (map fst (concat (the (pc_subject site_cert))))"
      by (simp add: site_cert_def)
  qed
  have e1: "fst (get_cert_info ?own Map.empty ?d)
     = Inr \<lparr> domain = ''www.example.com'', issuer = ''Example Org'',
             valid_from = ''Jan  1 00:00:00 2025 GMT'', valid_to = ''Jan 31 01:00:00 2025 GMT'',
             serial_number = ''N/A'', is_self_signed = True \<rparr>"
    by code_simp
  have e2: "fst (get_cert_info ?site Map.empty ?d)
     = Inr \<lparr> domain = ''www.example.com'', issuer = ''Example Org'',
             valid_from = ''Jan  1 00:00:00 2025 GMT'', valid_to = ''Jan 31 01:00:00 2025 GMT'',
             serial_number = ''0A1B'', is_self_signed = False \<rparr>"
    by code_simp
  have ne: "the (pc_issuer own_cert) \<noteq> the (pc_subject own_cert)"
    by (simp add: own_cert_def)
  from e1 f1 own have o: "set (concat (the (pc_issuer own_cert))) = set (concat (the (pc_subject own_cert)))"
    by simp
  from e2 f2 site have s: "set (concat (the (pc_issuer site_cert))) \<noteq> set (concat (the (pc_subject site_cert)))"
    by simp
  from e1 e2 ne o s show ?thesis by blast
qed

text \<open>
  Claim C1 says that \<^verbatim>\<open>is_self_signed\<close> is true if and only if the issuer's attribute set
  equals the subject's, all attributes compared. The code misses the certificate whose
  names repeat an attribute: the dictionaries keep the last \<^verbatim>\<open>domainComponent\<close> only, so
  the record of a server with such a certificate is marked self-signed although issuer and
  subject differ in an attribute.
\<close>

theorem self_signed_despite_different_names:
  "map_sum id is_self_signed
     (fst (get_cert_info (server (Some dc_cert) None empty_list_response) Map.empty ''corp.example''))
     = Inr True \<and>
   set (concat (the (pc_issuer dc_cert))) \<noteq> set (concat (the (pc_subject dc_cert)))"
  by code_simp

text \<open>
  Claim C4. When a call of \<^verbatim>\<open>get_cert_info\<close> for a domain returns a record, the record is
  in the cache afterwards, and every later call for that domain returns the same record
  and leaves the cache as it is: the very next call, whatever certificate the server
  presents by then, and a call after any sequence of further calls for any domains on any
  networks. An entry once written is never replaced.
\<close>

theorem retrieve_twice_identical:
  assumes "get_cert_info net1 cache d = (Inr r, cache1)"
  shows "cache1 d = Some r \<and>
         get_cert_info net2 cache1 d = (Inr r, cache1) \<and>
         get_cert_info net3 (cache_after cache1 calls) d = (Inr r, cache_after cache1 calls)"
proof -
  have 1: "cache1 d = Some r" using assms by (rule get_cert_info_success)
  then show ?thesis by (simp add: get_cert_info_hit cache_after_keeps)
qed

text \<open>
  The theorem at a server that presents one certificate at the first call and another at
  the second: the second call returns the record of the first, although a fresh process
  would get a different record from the second certificate.
\<close>

theorem retrieve_twice_identical_witness:
  "fst (get_cert_info (server (Some site_cert) None empty_list_response) Map.empty
          ''www.example.com'')
     = Inr \<lparr> domain = ''www.example.com'', issuer = ''Example Org'',
             valid_from = ''Jan  1 00:00:00 2025 GMT'', valid_to = ''Jan 31 01:00:00 2025 GMT'',
             serial_number = ''0A1B'', is_self_signed = False \<rparr> \<and>
   fst (get_cert_info (server (Some own_cert) None empty_list_response)
          (snd (get_cert_info (server (Some site_cert) None empty_list_response) Map.empty
                  ''www.example.com''))
          ''www.example.com'')
     = Inr \<lparr> domain = ''www.example.com'', issuer = ''Example Org'',
             valid_from = ''Jan  1 00:00:00 2025 GMT'', valid_to = ''Jan 31 01:00:00 2025 GMT'',
             serial_number = ''0A1B'', is_self_signed = False \<rparr> \<and>
   fst (get_cert_info (server (Some own_cert) None empty_list_response) Map.empty
          ''www.example.com'')
     = Inr \<lparr> domain = ''www.example.com'', issuer = ''Example Org'',
             valid_from = ''Jan  1 00:00:00 2025 GMT'', valid_to = ''Jan 31 01:00:00 2025 GMT'',
             serial_number = ''N/A'', is_self_signed = True \<rparr>"
proof -
  let ?d = "''www.example.com''"
  let ?site = "server (Some site_cert) None empty_list_response"
  let ?own = "server (Some own_cert) None empty_list_response"
  let ?r = "\<lparr> domain = ''www.example.com'', issuer = ''Example Org'',
             valid_from = ''Jan  1 00:00:00 2025 GMT'', valid_to = ''Jan 31 01:00:00 2025 GMT'',
             serial_number = ''0A1B'', is_self_signed = False \<rparr>"
  have e1: "fst (get_cert_info ?site Map.empty ?d) = Inr ?r"
    by code_simp
  then have g1: "get_cert_info ?site Map.empty ?d = (Inr ?r, snd (get_cert_info ?site Map.empty ?d))"
    by (simp add: prod_eq_iff)
  have "get_cert_info ?own (snd (get_cert_info ?site Map.empty ?d)) ?d
          = (Inr ?r, snd (get_cert_info ?site Map.empty ?d))"
    by (rule retrieve_twice_identical[OF g1, THEN conjunct2, THEN conjunct1])
  then have e2: "fst (get_cert_info ?own (snd (get_cert_info ?site Map.empty ?d)) ?d) = Inr ?r"
    by (simp only: fst_conv)
  have e3: "fst (get_cert_info ?own Map.empty ?d)
     = Inr \<lparr> domain = ''www.example.com'', issuer = ''Example Org'',
             valid_from = ''Jan  1 00:00:00 2025 GMT'', valid_to = ''Jan 31 01:00:00 2025 GMT'',
             serial_number = ''N/A'', is_self_signed = True \<rparr>"
    by code_simp
  from e1 e2 e3 show ?thesis by blast
qed

text \<open>
  Claim C10. When \<^verbatim>\<open>get_cert_info\<close> raises, the cache after the call is the cache before
  it, and it holds no entry for the domain, so the next call for the domain returns what a
  process with an empty cache would get from the network of that moment: the result of a
  fresh handshake. The exception comes from one of three places: the connection, the
  handshake, or the extraction of the certificate's fields.
\<close>

theorem failed_retrieve_leaves_cache:
  assumes "get_cert_info net cache d = (Inl e, cache')"
  shows "cache' = cache \<and> cache' d = None \<and>
         fst (get_cert_info net2 cache' d) = fst (get_cert_info net2 Map.empty d) \<and>
         (create_connection net (d, 443) None = Inl e \<or>
          (\<exists>sock. create_connection net (d, 443) None = Inr sock \<and>
             (wrap_socket net sock d = Inl e \<or>
              (\<exists>ssock. wrap_socket net sock d = Inr ssock \<and>
                 parse_cert d (getpeercert ssock) = Inl e))))"
proof -
  from assms have 1: "cache' = cache" and 2: "cache d = None"
    using get_cert_info_failure by blast+
  have 3: "fst (get_cert_info net2 cache' d) = fst (get_cert_info net2 Map.empty d)"
    using 1 2 by (intro get_cert_info_only_reads_entry) simp
  have 4: "create_connection net (d, 443) None = Inl e \<or>
            (\<exists>sock. create_connection net (d, 443) None = Inr sock \<and>
               (wrap_socket net sock d = Inl e \<or>
                (\<exists>ssock. wrap_socket net sock d = Inr ssock \<and>
                   parse_cert d (getpeercert ssock) = Inl e)))"
    using assms 2 by (auto simp: get_cert_info_def split: sum.splits)
  from 1 2 3 4 show ?thesis by blast
qed

text \<open>
  The theorem at an unreachable host, at a server that fails the handshake and at a
  server whose certificate lacks \<^verbatim>\<open>notAfter\<close>; after the last failure the cache is empty
  and a call that reaches a sound server returns that server's record.
\<close>

theorem failed_retrieve_leaves_cache_witness:
  "fst (get_cert_info (failing OSError) Map.empty ''www.example.com'') = Inl OSError \<and>
   fst (get_cert_info no_handshake Map.empty ''www.example.com'') = Inl SSLError \<and>
   fst (get_cert_info (server (Some broken_cert) None empty_list_response) Map.empty
          ''www.example.com'') = Inl (KeyError ''notAfter'') \<and>
   snd (get_cert_info (server (Some broken_cert) None empty_list_response) Map.empty
          ''www.example.com'') = Map.empty \<and>
   fst (get_cert_info (server (Some site_cert) None empty_list_response)
          (snd (get_cert_info (server (Some broken_cert) None empty_list_response) Map.empty
                  ''www.example.com''))
          ''www.example.com'')
     = Inr \<lparr> domain = ''www.example.com'', issuer = ''Example Org'',
             valid_from = ''Jan  1 00:00:00 2025 GMT'', valid_to = ''Jan 31 01:00:00 2025 GMT'',
             serial_number = ''0A1B'', is_self_signed = False \<rparr>"
proof -
  let ?d = "''www.example.com''"
  let ?broken = "server (Some broken_cert) None empty_list_response"
  let ?site = "server (Some site_cert) None empty_list_response"
  have e1: "fst (get_cert_info (failing OSError) Map.empty ?d) = Inl OSError"
    by code_simp
  have e2: "fst (get_cert_info no_handshake Map.empty ?d) = Inl SSLError"
    by code_simp
  have e3: "fst (get_cert_info ?broken Map.empty ?d) = Inl (KeyError ''notAfter'')"
    by code_simp
  then have g3: "get_cert_info ?broken Map.empty ?d
      = (Inl (KeyError ''notAfter''), snd (get_cert_info ?broken Map.empty ?d))"
    by (simp add: prod_eq_iff)
  note T = failed_retrieve_leaves_cache[OF g3, of ?site]
  have e4: "snd (get_cert_info ?broken Map.empty ?d) = Map.empty"
    by (rule T[THEN conjunct1])
  have "fst (get_cert_info ?site (snd (get_cert_info ?broken Map.empty ?d)) ?d)
          = fst (get_cert_info ?site Map.empty ?d)"
    by (rule T[THEN conjunct2, THEN conjunct2, THEN conjunct1])
  also have "\<dots> = Inr \<lparr> domain = ''www.example.com'', issuer = ''Example Org'',
             valid_from = ''Jan  1 00:00:00 2025 GMT'', valid_to = ''Jan 31 01:00:00 2025 GMT'',
             serial_number = ''0A1B'', is_self_signed = False \<rparr>"
    by code_simp
  finally have e5: "fst (get_cert_info ?site (snd (get_cert_info ?broken Map.empty ?d)) ?d)
     = Inr \<lparr> domain = ''www.example.com'', issuer = ''Example Org'',
             valid_from = ''Jan  1 00:00:00 2025 GMT'', valid_to = ''Jan 31 01:00:00 2025 GMT'',
             serial_number = ''0A1B'', is_self_signed = False \<rparr>" .
  from e1 e2 e3 e4 e5 show ?thesis by blast
qed

text \<open>
  Claim C7. \<^verbatim>\<open>check_cert_transparency\<close> always returns a value and never an exception:
  the decoded body when the request succeeds with status 200 and the body decodes, and
  the empty list when the request raises, when the status is another one (500, say), and
  when decoding the body raises.
\<close>

theorem correlate_never_raises:
  "check_cert_transparency net d =
     Inr (case requests_get net (CRTSH_URL d) (Some 10) of
            Inl e \<Rightarrow> JArr []
          | Inr r \<Rightarrow> if status_code r = 200
                     then (case response_json r of Inl e \<Rightarrow> JArr [] | Inr body \<Rightarrow> body)
                     else JArr [])"
  by (simp add: check_cert_transparency_def except_Exception_def split: sum.splits)

text \<open>
  The theorem at an aggregator that answers with status 500, at one that cannot be reached
  and at one that answers with a list of two entries.
\<close>

theorem correlate_never_raises_witness:
  "check_cert_transparency (server None None server_error_response) ''www.example.com''
     = Inr (JArr []) \<and>
   check_cert_transparency (failing RequestException) ''www.example.com'' = Inr (JArr []) \<and>
   check_cert_transparency (server None None two_entries_response) ''www.example.com''
     = Inr (JArr [JObj [(''id'', JInt 1)], JObj [(''id'', JInt 2)]])"
  using correlate_never_raises[of "server None None server_error_response" "''www.example.com''"]
    correlate_never_raises[of "failing RequestException" "''www.example.com''"]
    correlate_never_raises[of "server None None two_entries_response" "''www.example.com''"]
  by (simp add: server_def failing_def server_error_response_def two_entries_response_def)

subsection \<open>The cipher analyzer\<close>

text \<open>Python's substring test is the existence of a text before and a text after.\<close>

lemma str_contains_sublist: "str_contains sub s \<longleftrightarrow> (\<exists>ps ss. s = ps @ sub @ ss)"
proof (induction s)
  case Nil
  show ?case by auto
next
  case (Cons c cs)
  have "sublist sub (c # cs) \<longleftrightarrow> prefix sub (c # cs) \<or> sublist sub cs"
    by (rule sublist_Cons_right)
  with Cons show ?case by (simp add: sublist_def)
qed

lemma analyze_cases:
  "analyze_cipher_strength net d = Inr (Some a) \<Longrightarrow>
   is_weak a \<longleftrightarrow> str_contains ''RC4'' (cipher_name a) \<or> str_contains ''DES'' (cipher_name a)
                 \<or> bits a < 128"
  by (auto simp: analyze_cipher_strength_def except_Exception_def split: sum.splits option.splits)

text \<open>
  Claim C2. In every assessment that \<^verbatim>\<open>analyze_cipher_strength\<close> returns, \<^verbatim>\<open>is_weak\<close> is
  true if and only if the cipher name contains \<^verbatim>\<open>RC4\<close>, or contains \<^verbatim>\<open>DES\<close>, or the
  number of bits is less than 128. In particular a name with \<^verbatim>\<open>RC4\<close> in it is weak
  whatever the bits, 256 bits without either marker are not weak, and 112 bits without
  either marker are weak.
\<close>

theorem is_weak_iff_marker_or_short:
  assumes "analyze_cipher_strength net d = Inr (Some a)"
  shows "(is_weak a \<longleftrightarrow>
            (\<exists>ps ss. cipher_name a = ps @ ''RC4'' @ ss) \<or>
            (\<exists>ps ss. cipher_name a = ps @ ''DES'' @ ss) \<or> bits a < 128) \<and>
         ((\<exists>ps ss. cipher_name a = ps @ ''RC4'' @ ss) \<longrightarrow> is_weak a) \<and>
         (bits a = 256 \<and> (\<nexists>ps ss. cipher_name a = ps @ ''RC4'' @ ss) \<and>
            (\<nexists>ps ss. cipher_name a = ps @ ''DES'' @ ss) \<longrightarrow> \<not> is_weak a) \<and>
         (bits a = 112 \<and> (\<nexists>ps ss. cipher_name a = ps @ ''RC4'' @ ss) \<and>
            (\<nexists>ps ss. cipher_name a = ps @ ''DES'' @ ss) \<longrightarrow> is_weak a)"
proof -
  have "is_weak a \<longleftrightarrow>
            (\<exists>ps ss. cipher_name a = ps @ ''RC4'' @ ss) \<or>
            (\<exists>ps ss. cipher_name a = ps @ ''DES'' @ ss) \<or> bits a < 128"
    using analyze_cases[OF assms] by (simp only: str_contains_sublist)
  then show ?thesis by auto
qed

text \<open>
  The theorem at three servers: an \<^verbatim>\<open>RC4\<close> suite reported with 256 bits (weak), an AES
  suite with 256 bits (not weak), and a suite without a marker in its name with 112 bits
  (weak).
\<close>

theorem is_weak_iff_marker_or_short_witness:
  "analyze_cipher_strength
      (server None (Some (''ECDHE-RSA-RC4-SHA'', ''TLSv1.2'', 256)) empty_list_response)
      ''www.example.com''
     = Inr (Some \<lparr> cipher_name = ''ECDHE-RSA-RC4-SHA'', protocol = ''TLSv1.2'', bits = 256,
                    is_weak = True \<rparr>) \<and>
   analyze_cipher_strength
      (server None (Some (''TLS_AES_256_GCM_SHA384'', ''TLSv1.3'', 256)) empty_list_response)
      ''www.example.com''
     = Inr (Some \<lparr> cipher_name = ''TLS_AES_256_GCM_SHA384'', protocol = ''TLSv1.3'', bits = 256,
                    is_weak = False \<rparr>) \<and>
   analyze_cipher_strength
      (server None (Some (''TDEA-CBC-SHA'', ''TLSv1.2'', 112)) empty_list_response)
      ''www.example.com''
     = Inr (Some \<lparr> cipher_name = ''TDEA-CBC-SHA'', protocol = ''TLSv1.2'', bits = 112,
                    is_weak = True \<rparr>) \<and>
   (\<exists>ps ss. ''ECDHE-RSA-RC4-SHA'' = ps @ ''RC4'' @ ss) \<and>
   (\<nexists>ps ss. ''TLS_AES_256_GCM_SHA384'' = ps @ ''RC4'' @ ss) \<and>
   (\<nexists>ps ss. ''TLS_AES_256_GCM_SHA384'' = ps @ ''DES'' @ ss) \<and>
   (\<nexists>ps ss. ''TDEA-CBC-SHA'' = ps @ ''RC4'' @ ss) \<and>
   (\<nexists>ps ss. ''TDEA-CBC-SHA'' = ps @ ''DES'' @ ss)"
proof -
  let ?d = "''www.example.com''"
  let ?a1 = "\<lparr> cipher_name = ''ECDHE-RSA-RC4-SHA'', protocol = ''TLSv1.2'', bits = 256,
               is_weak = True \<rparr>"
  let ?a2 = "\<lparr> cipher_name = ''TLS_AES_256_GCM_SHA384'', protocol = ''TLSv1.3'', bits = 256,
               is_weak = False \<rparr>"
  let ?a3 = "\<lparr> cipher_name = ''TDEA-CBC-SHA'', protocol = ''TLSv1.2'', bits = 112,
               is_weak = True \<rparr>"
  have h1: "analyze_cipher_strength
      (server None (Some (''ECDHE-RSA-RC4-SHA'', ''TLSv1.2'', 256)) empty_list_response) ?d
     = Inr (Some ?a1)"
    by code_simp
  have h2: "analyze_cipher_strength
      (server None (Some (''TLS_AES_256_GCM_SHA384'', ''TLSv1.3'', 256)) empty_list_response) ?d
     = Inr (Some ?a2)"
    by code_simp
  have h3: "analyze_cipher_strength
      (server None (Some (''TDEA-CBC-SHA'', ''TLSv1.2'', 112)) empty_list_response) ?d
     = Inr (Some ?a3)"
    by code_simp
  have m1: "\<exists>ps ss. ''ECDHE-RSA-RC4-SHA'' = ps @ ''RC4'' @ ss"
    unfolding str_contains_sublist[symmetric] by simp
  have w1: "is_weak ?a1"
    using is_weak_iff_marker_or_short[OF h1, THEN conjunct2, THEN conjunct1] m1 by simp
  have m2: "(\<nexists>ps ss. ''TLS_AES_256_GCM_SHA384'' = ps @ ''RC4'' @ ss) \<and>
            (\<nexists>ps ss. ''TLS_AES_256_GCM_SHA384'' = ps @ ''DES'' @ ss)"
    using is_weak_iff_marker_or_short[OF h2, THEN conjunct1] by simp
  have m3: "(\<nexists>ps ss. ''TDEA-CBC-SHA'' = ps @ ''RC4'' @ ss) \<and>
            (\<nexists>ps ss. ''TDEA-CBC-SHA'' = ps @ ''DES'' @ ss)"
    unfolding str_contains_sublist[symmetric] by simp
  from h1 h2 h3 m1 m2 m3 show ?thesis by blast
qed

subsection \<open>The expiry calculator\<close>



text \<open>
  What \<^verbatim>\<open>strptime\<close> returns is a value that the \<^verbatim>\<open>datetime\<close> constructor accepts.
\<close>

lemma index_of_less: "index_of x xs = Some i \<Longrightarrow> i < length xs"
  by (induction xs arbitrary: i) (auto split: if_splits)

lemma parse_b_range: "parse_b s = Some (b, r) \<Longrightarrow> 1 \<le> b \<and> b \<le> 12"
proof -
  assume "parse_b s = Some (b, r)"
  then obtain i where "index_of (map lower (take 3 s)) MONTHS = Some i" and b: "b = i + 1"
    by (auto simp: parse_b_def)
  then have "i < length MONTHS" by (simp only: index_of_less)
  then show ?thesis using b by (simp add: MONTHS_def)
qed

lemma parse_num_range: "parse_num lo hi s = Some (v, r) \<Longrightarrow> lo \<le> v \<and> v \<le> hi"
  by (auto simp: parse_num_def Let_def split: if_splits)

lemma digit_val_le: "is_digit c \<Longrightarrow> digit_val c \<le> 9"
  by (auto simp: is_digit_def digit_val_def Let_def)

lemma four_digits_le:
  assumes "length ds = 4" "list_all is_digit ds"
  shows "foldl (\<lambda>a c. 10 * a + digit_val c) 0 ds \<le> 9999"
proof -
  from assms(1) obtain a b c d where ds: "ds = [a, b, c, d]"
    by (auto simp: length_Suc_conv eval_nat_numeral)
  from assms(2) have "digit_val a \<le> 9" "digit_val b \<le> 9" "digit_val c \<le> 9" "digit_val d \<le> 9"
    unfolding ds by (simp_all add: digit_val_le)
  then show ?thesis unfolding ds by simp
qed

lemma parse_Y_range: "parse_Y s = Some (y, r) \<Longrightarrow> y \<le> 9999"
  by (auto simp: parse_Y_def Let_def four_digits_le split: if_splits)

lemma format_regex_match_ranges:
  assumes "format_regex_match s = Some (Y, b, d, H, M, S)"
  shows "Y \<le> 9999 \<and> 1 \<le> b \<and> b \<le> 12 \<and> 1 \<le> d \<and> d \<le> 31 \<and> H \<le> 23 \<and> M \<le> 59 \<and> S \<le> 61"
  using assms unfolding format_regex_match_def
  by (auto simp: bind_eq_Some_conv dest!: parse_b_range parse_num_range parse_Y_range)

lemma strptime_valid: "strptime s = Inr e \<Longrightarrow> valid_datetime e"
  by (auto simp: strptime_def valid_datetime_def split: option.splits if_splits
      dest!: format_regex_match_ranges)



subsection \<open>The export of the report\<close>

lemma analyze_always_returns: "\<exists>r. analyze_cipher_strength net d = Inr r"
  by (simp add: analyze_cipher_strength_def except_Exception_def split: sum.splits)

lemma correlate_always_returns: "\<exists>logs. check_cert_transparency net d = Inr logs"
  by (simp add: check_cert_transparency_def except_Exception_def split: sum.splits)

lemma export_json_failure:
  "get_cert_info net1 cache d = (Inl e, cache1) \<Longrightarrow>
   export_json net1 net2 net3 now cache d = (Inl e, cache)"
  using get_cert_info_failure[of net1 cache d e cache1] by (simp add: export_json_def)

lemma export_json_success:
  "get_cert_info net1 cache d = (Inr info, cache1) \<Longrightarrow>
   analyze_cipher_strength net2 d = Inr ci \<Longrightarrow>
   check_cert_transparency net3 d = Inr logs \<Longrightarrow>
   py_len logs = Inr n \<Longrightarrow>
   export_json net1 net2 net3 now cache d =
     (Inr (''ssl_report_'' @ replace_dots d @ ''.json'',
           JObj [(''domain'', JStr d),
                 (''certificate'', cert_info_json info),
                 (''cipher'', cipher_info_json ci),
                 (''ct_log_entries'', JInt (int n)),
                 (''scan_time'', JStr (isoformat now))]),
      cache1)"
  by (simp add: export_json_def)

text \<open>The digits that \<^verbatim>\<open>isoformat\<close> prints, and the shape of its result.\<close>

lemma is_digit_char_of: "is_digit (char_of (48 + v mod 10 :: nat))"
proof -
  have "v mod 10 < 10" by simp
  then have "48 + v mod 10 < 256" by linarith
  then have "(48 + v mod 10) mod 256 = 48 + v mod 10" by simp
  then show ?thesis by (simp add: is_digit_def Let_def)
qed

lemma fmt_d_2: "fmt_d 2 v = [char_of (48 + (v div 10) mod 10), char_of (48 + v mod 10)]"
proof -
  have "fmt_d (Suc (Suc 0)) v = [char_of (48 + (v div 10) mod 10), char_of (48 + v mod 10)]"
    by (simp only: fmt_d.simps append.simps)
  then show ?thesis by (simp only: numeral_2_eq_2)
qed


lemma fmt_d_4:
  "fmt_d 4 v = [char_of (48 + (v div 10 div 10 div 10) mod 10),
                char_of (48 + (v div 10 div 10) mod 10),
                char_of (48 + (v div 10) mod 10), char_of (48 + v mod 10)]"
proof -
  have "fmt_d (Suc (Suc (Suc (Suc 0)))) v =
          [char_of (48 + (v div 10 div 10 div 10) mod 10),
           char_of (48 + (v div 10 div 10) mod 10),
           char_of (48 + (v div 10) mod 10), char_of (48 + v mod 10)]"
    by (simp only: fmt_d.simps append.simps)
  moreover have "(4::nat) = Suc (Suc (Suc (Suc 0)))" by simp
  ultimately show ?thesis by (simp only:)
qed

lemma fmt_d_6:
  "fmt_d 6 v = [char_of (48 + (v div 10 div 10 div 10 div 10 div 10) mod 10),
                char_of (48 + (v div 10 div 10 div 10 div 10) mod 10),
                char_of (48 + (v div 10 div 10 div 10) mod 10),
                char_of (48 + (v div 10 div 10) mod 10),
                char_of (48 + (v div 10) mod 10), char_of (48 + v mod 10)]"
proof -
  have "fmt_d (Suc (Suc (Suc (Suc (Suc (Suc 0)))))) v =
          [char_of (48 + (v div 10 div 10 div 10 div 10 div 10) mod 10),
           char_of (48 + (v div 10 div 10 div 10 div 10) mod 10),
           char_of (48 + (v div 10 div 10 div 10) mod 10),
           char_of (48 + (v div 10 div 10) mod 10),
           char_of (48 + (v div 10) mod 10), char_of (48 + v mod 10)]"
    by (simp only: fmt_d.simps append.simps)
  moreover have "(6::nat) = Suc (Suc (Suc (Suc (Suc (Suc 0)))))" by simp
  ultimately show ?thesis by (simp only:)
qed

lemma shape_seconds:
  assumes "list_all is_digit [y1, y2, y3, y4, m1, m2, d1, d2, h1, h2, n1, n2, s1, s2]"
  shows "iso8601_shape ([y1, y2, y3, y4] @ ''-'' @ [m1, m2] @ ''-'' @ [d1, d2] @ ''T'' @
           [h1, h2] @ '':'' @ [n1, n2] @ '':'' @ [s1, s2] @ [])"
  using assms by (simp add: iso8601_shape_def all_digits_def)

lemma shape_microseconds:
  assumes "list_all is_digit [y1, y2, y3, y4, m1, m2, d1, d2, h1, h2, n1, n2, s1, s2]"
    and "list_all is_digit [u1, u2, u3, u4, u5, u6]"
  shows "iso8601_shape ([y1, y2, y3, y4] @ ''-'' @ [m1, m2] @ ''-'' @ [d1, d2] @ ''T'' @
           [h1, h2] @ '':'' @ [n1, n2] @ '':'' @ [s1, s2] @ ''.'' @ [u1, u2, u3, u4, u5, u6])"
  using assms by (simp add: iso8601_shape_def all_digits_def)

lemma isoformat_shape: "iso8601_shape (isoformat now)"
proof (cases "microsecond now = 0")
  case True
  have eq: "isoformat now = fmt_d 4 (year now) @ ''-'' @ fmt_d 2 (month now) @ ''-'' @
      fmt_d 2 (day now) @ ''T'' @ fmt_d 2 (hour now) @ '':'' @ fmt_d 2 (minute now) @ '':'' @
      fmt_d 2 (second now) @ []"
    using True by (simp only: isoformat_def if_False simp_thms)
  show ?thesis
    unfolding eq fmt_d_2 fmt_d_4
    by (rule shape_seconds) (simp only: list.pred_inject is_digit_char_of simp_thms)
next
  case False
  have eq: "isoformat now = fmt_d 4 (year now) @ ''-'' @ fmt_d 2 (month now) @ ''-'' @
      fmt_d 2 (day now) @ ''T'' @ fmt_d 2 (hour now) @ '':'' @ fmt_d 2 (minute now) @ '':'' @
      fmt_d 2 (second now) @ ''.'' @ fmt_d 6 (microsecond now)"
    using False by (simp only: isoformat_def if_True simp_thms)
  show ?thesis
    unfolding eq fmt_d_2 fmt_d_4 fmt_d_6
    by (rule shape_microseconds) (simp_all only: list.pred_inject is_digit_char_of simp_thms)
qed

text \<open>
  What the export does on the values that have a length. It fails as a whole, with the
  retriever's exception and without a report, when \<^verbatim>\<open>get_cert_info\<close> fails. When
  \<^verbatim>\<open>get_cert_info\<close> returns a record, the analyzer and the correlator both return a value,
  and the report is produced whenever the correlator's value has a length, as every list
  has; in particular it is produced when the analyzer returns \<^verbatim>\<open>None\<close> and the correlator
  the empty list. The report is an object with exactly the fields \<^verbatim>\<open>domain\<close>,
  \<^verbatim>\<open>certificate\<close>, \<^verbatim>\<open>cipher\<close> (null when the analyzer returned \<^verbatim>\<open>None\<close>),
  \<^verbatim>\<open>ct_log_entries\<close> (the length of the correlator's value, a natural number) and
  \<^verbatim>\<open>scan_time\<close>, the clock's value in the ISO 8601 shape.
\<close>

lemma export_json_report:
  "(\<forall>e cache1. get_cert_info net1 cache d = (Inl e, cache1) \<longrightarrow>
       export_json net1 net2 net3 now cache d = (Inl e, cache)) \<and>
   (\<forall>info cache1. get_cert_info net1 cache d = (Inr info, cache1) \<longrightarrow>
       (\<exists>ci logs. analyze_cipher_strength net2 d = Inr ci \<and>
                   check_cert_transparency net3 d = Inr logs \<and>
          (\<forall>n. py_len logs = Inr n \<longrightarrow>
             export_json net1 net2 net3 now cache d =
               (Inr (''ssl_report_'' @ replace_dots d @ ''.json'',
                     JObj [(''domain'', JStr d),
                           (''certificate'', cert_info_json info),
                           (''cipher'', cipher_info_json ci),
                           (''ct_log_entries'', JInt (int n)),
                           (''scan_time'', JStr (isoformat now))]),
                cache1)))) \<and>
   (\<forall>info cache1. get_cert_info net1 cache d = (Inr info, cache1) \<and>
       analyze_cipher_strength net2 d = Inr None \<and>
       check_cert_transparency net3 d = Inr (JArr []) \<longrightarrow>
         export_json net1 net2 net3 now cache d =
           (Inr (''ssl_report_'' @ replace_dots d @ ''.json'',
                 JObj [(''domain'', JStr d),
                       (''certificate'', cert_info_json info),
                       (''cipher'', JNull),
                       (''ct_log_entries'', JInt 0),
                       (''scan_time'', JStr (isoformat now))]),
            cache1)) \<and>
   iso8601_shape (isoformat now)"
proof (intro conjI allI impI)
  fix e cache1
  assume "get_cert_info net1 cache d = (Inl e, cache1)"
  then show "export_json net1 net2 net3 now cache d = (Inl e, cache)"
    by (rule export_json_failure)
next
  fix info cache1
  assume ok: "get_cert_info net1 cache d = (Inr info, cache1)"
  obtain ci where ci: "analyze_cipher_strength net2 d = Inr ci"
    using analyze_always_returns by blast
  obtain logs where logs: "check_cert_transparency net3 d = Inr logs"
    using correlate_always_returns by blast
  show "\<exists>ci logs. analyze_cipher_strength net2 d = Inr ci \<and>
                   check_cert_transparency net3 d = Inr logs \<and>
          (\<forall>n. py_len logs = Inr n \<longrightarrow>
             export_json net1 net2 net3 now cache d =
               (Inr (''ssl_report_'' @ replace_dots d @ ''.json'',
                     JObj [(''domain'', JStr d),
                           (''certificate'', cert_info_json info),
                           (''cipher'', cipher_info_json ci),
                           (''ct_log_entries'', JInt (int n)),
                           (''scan_time'', JStr (isoformat now))]),
                cache1))"
    using ci logs export_json_success[OF ok ci logs] by blast
next
  fix info cache1
  assume "get_cert_info net1 cache d = (Inr info, cache1) \<and>
       analyze_cipher_strength net2 d = Inr None \<and>
       check_cert_transparency net3 d = Inr (JArr [])"
  then have ok: "get_cert_info net1 cache d = (Inr info, cache1)"
    and ci: "analyze_cipher_strength net2 d = Inr None"
    and logs: "check_cert_transparency net3 d = Inr (JArr [])"
    by blast+
  have "py_len (JArr []) = Inr 0" by simp
  from export_json_success[OF ok ci logs this]
  show "export_json net1 net2 net3 now cache d =
           (Inr (''ssl_report_'' @ replace_dots d @ ''.json'',
                 JObj [(''domain'', JStr d),
                       (''certificate'', cert_info_json info),
                       (''cipher'', JNull),
                       (''ct_log_entries'', JInt 0),
                       (''scan_time'', JStr (isoformat now))]),
            cache1)"
    by (simp add: cipher_info_json_def)
next
  show "iso8601_shape (isoformat now)" by (rule isoformat_shape)
qed

text \<open>
  An unreachable host, and a host whose certificate is retrieved while the analyzer's
  handshake fails and the aggregator cannot be reached.
\<close>

lemma export_json_report_examples:
  "fst (export_json (failing OSError) (failing OSError) (failing OSError) new_year_2025
          Map.empty ''www.example.com'') = Inl OSError \<and>
   fst (export_json (server (Some site_cert) None empty_list_response) no_handshake
          (failing RequestException) new_year_2025 Map.empty ''www.example.com'')
     = Inr (''ssl_report_www_example_com.json'',
            JObj [(''domain'', JStr ''www.example.com''),
                  (''certificate'',
                     JObj [(''domain'', JStr ''www.example.com''),
                           (''issuer'', JStr ''Example Org''),
                           (''valid_from'', JStr ''Jan  1 00:00:00 2025 GMT''),
                           (''valid_to'', JStr ''Jan 31 01:00:00 2025 GMT''),
                           (''serial_number'', JStr ''0A1B''),
                           (''is_self_signed'', JBool False)]),
                  (''cipher'', JNull),
                  (''ct_log_entries'', JInt 0),
                  (''scan_time'', JStr ''2025-01-01T00:00:00'')]) \<and>
   iso8601_shape ''2025-01-01T00:00:00''"
proof -
  let ?d = "''www.example.com''"
  let ?site = "server (Some site_cert) None empty_list_response"
  let ?info = "\<lparr> domain = ''www.example.com'', issuer = ''Example Org'',
             valid_from = ''Jan  1 00:00:00 2025 GMT'', valid_to = ''Jan 31 01:00:00 2025 GMT'',
             serial_number = ''0A1B'', is_self_signed = False \<rparr>"
  note T1 = export_json_report[of "failing OSError" Map.empty ?d "failing OSError"
      "failing OSError" new_year_2025]
  note T2 = export_json_report[of ?site Map.empty ?d no_handshake
      "failing RequestException" new_year_2025]
  have f: "fst (get_cert_info (failing OSError) Map.empty ?d) = Inl OSError"
    by code_simp
  then have g: "get_cert_info (failing OSError) Map.empty ?d
      = (Inl OSError, snd (get_cert_info (failing OSError) Map.empty ?d))"
    by (simp add: prod_eq_iff)
  have "export_json (failing OSError) (failing OSError) (failing OSError) new_year_2025
          Map.empty ?d = (Inl OSError, Map.empty)"
    using T1[THEN conjunct1, rule_format, OF g] .
  then have r1: "fst (export_json (failing OSError) (failing OSError) (failing OSError)
      new_year_2025 Map.empty ?d) = Inl OSError"
    by (simp only: fst_conv)
  have f2: "fst (get_cert_info ?site Map.empty ?d) = Inr ?info"
    by code_simp
  then have g2: "get_cert_info ?site Map.empty ?d
      = (Inr ?info, snd (get_cert_info ?site Map.empty ?d))"
    by (simp add: prod_eq_iff)
  have a: "analyze_cipher_strength no_handshake ?d = Inr None"
    by code_simp
  have c: "check_cert_transparency (failing RequestException) ?d = Inr (JArr [])"
    by code_simp
  have "export_json ?site no_handshake (failing RequestException) new_year_2025 Map.empty ?d =
           (Inr (''ssl_report_'' @ replace_dots ?d @ ''.json'',
                 JObj [(''domain'', JStr ?d),
                       (''certificate'', cert_info_json ?info),
                       (''cipher'', JNull),
                       (''ct_log_entries'', JInt 0),
                       (''scan_time'', JStr (isoformat new_year_2025))]),
            snd (get_cert_info ?site Map.empty ?d))"
    using T2[THEN conjunct2, THEN conjunct2, THEN conjunct1, rule_format, OF conjI[OF g2 conjI[OF a c]]] .
  then have "fst (export_json ?site no_handshake (failing RequestException) new_year_2025
      Map.empty ?d) =
           Inr (''ssl_report_'' @ replace_dots ?d @ ''.json'',
                 JObj [(''domain'', JStr ?d),
                       (''certificate'', cert_info_json ?info),
                       (''cipher'', JNull),
                       (''ct_log_entries'', JInt 0),
                       (''scan_time'', JStr (isoformat new_year_2025))])"
    by (simp only: fst_conv)
  moreover have "replace_dots ?d = ''www_example_com''" by code_simp
  moreover have iso: "isoformat new_year_2025 = ''2025-01-01T00:00:00''" by code_simp
  moreover have "cert_info_json ?info = JObj [(''domain'', JStr ''www.example.com''),
                           (''issuer'', JStr ''Example Org''),
                           (''valid_from'', JStr ''Jan  1 00:00:00 2025 GMT''),
                           (''valid_to'', JStr ''Jan 31 01:00:00 2025 GMT''),
                           (''serial_number'', JStr ''0A1B''),
                           (''is_self_signed'', JBool False)]"
    by (simp add: cert_info_json_def)
  ultimately have r2: "fst (export_json ?site no_handshake
          (failing RequestException) new_year_2025 Map.empty ?d)
     = Inr (''ssl_report_www_example_com.json'',
            JObj [(''domain'', JStr ''www.example.com''),
                  (''certificate'',
                     JObj [(''domain'', JStr ''www.example.com''),
                           (''issuer'', JStr ''Example Org''),
                           (''valid_from'', JStr ''Jan  1 00:00:00 2025 GMT''),
                           (''valid_to'', JStr ''Jan 31 01:00:00 2025 GMT''),
                           (''serial_number'', JStr ''0A1B''),
                           (''is_self_signed'', JBool False)]),
                  (''cipher'', JNull),
                  (''ct_log_entries'', JInt 0),
                  (''scan_time'', JStr ''2025-01-01T00:00:00'')])"
    by simp
  have r3: "iso8601_shape ''2025-01-01T00:00:00''"
    using T2[THEN conjunct2, THEN conjunct2, THEN conjunct2] unfolding iso .
  from r1 r2 r3 show ?thesis by blast
qed

text \<open>
  Claim C6 says that the export fails as a whole only when the retriever fails, and that
  with a retrieved certificate the report is produced, the analyzer and the correlator
  being enrichments that cannot fail it. The code misses the answer of the aggregator that
  has status 200 and a body that is no list: the correlator returns the decoded body as it
  is, \<^verbatim>\<open>len\<close> at line 195 raises a \<^verbatim>\<open>TypeError\<close> that nothing in \<^verbatim>\<open>main\<close> catches, and no
  report is produced, although the retriever returned a record and the analyzer an
  assessment.
\<close>

theorem export_json_fails_on_null_body:
  "fst (get_cert_info
          (server (Some site_cert) (Some (''TLS_AES_256_GCM_SHA384'', ''TLSv1.3'', 256))
             empty_list_response)
          Map.empty ''www.example.com'')
     = Inr \<lparr> domain = ''www.example.com'', issuer = ''Example Org'',
             valid_from = ''Jan  1 00:00:00 2025 GMT'', valid_to = ''Jan 31 01:00:00 2025 GMT'',
             serial_number = ''0A1B'', is_self_signed = False \<rparr> \<and>
   analyze_cipher_strength
      (server (Some site_cert) (Some (''TLS_AES_256_GCM_SHA384'', ''TLSv1.3'', 256))
         empty_list_response)
      ''www.example.com''
     = Inr (Some \<lparr> cipher_name = ''TLS_AES_256_GCM_SHA384'', protocol = ''TLSv1.3'',
                    bits = 256, is_weak = False \<rparr>) \<and>
   check_cert_transparency (server None None null_response) ''www.example.com'' = Inr JNull \<and>
   fst (export_json
          (server (Some site_cert) (Some (''TLS_AES_256_GCM_SHA384'', ''TLSv1.3'', 256))
             empty_list_response)
          (server (Some site_cert) (Some (''TLS_AES_256_GCM_SHA384'', ''TLSv1.3'', 256))
             empty_list_response)
          (server None None null_response)
          new_year_2025 Map.empty ''www.example.com'')
     = Inl TypeError"
  by code_simp

subsection \<open>Failures of the network\<close>

lemma analyze_connection_failure:
  "create_connection net (d, 443) None = Inl e \<Longrightarrow> analyze_cipher_strength net d = Inr None"
  by (simp add: analyze_cipher_strength_def except_Exception_def)

lemma analyze_handshake_failure:
  "create_connection net (d, 443) None = Inr sock \<Longrightarrow> wrap_socket net sock d = Inl e \<Longrightarrow>
   analyze_cipher_strength net d = Inr None"
  by (simp add: analyze_cipher_strength_def except_Exception_def)

lemma analyze_no_cipher:
  "create_connection net (d, 443) None = Inr sock \<Longrightarrow> wrap_socket net sock d = Inr ssock \<Longrightarrow>
   cipher ssock = None \<Longrightarrow> analyze_cipher_strength net d = Inr None"
  by (simp add: analyze_cipher_strength_def except_Exception_def)

lemma get_cert_info_connection_failure:
  "cache d = None \<Longrightarrow> create_connection net (d, 443) None = Inl e \<Longrightarrow>
   get_cert_info net cache d = (Inl e, cache)"
  by (simp add: get_cert_info_def)

lemma get_cert_info_handshake_failure:
  "cache d = None \<Longrightarrow> create_connection net (d, 443) None = Inr sock \<Longrightarrow>
   wrap_socket net sock d = Inl e \<Longrightarrow> get_cert_info net cache d = (Inl e, cache)"
  by (simp add: get_cert_info_def)

text \<open>
  Claim C8. \<^verbatim>\<open>analyze_cipher_strength\<close> always returns a value, never an exception, and
  the value is \<^verbatim>\<open>None\<close> when the connection fails, when the handshake fails, and when the
  session reports no cipher. A \<^verbatim>\<open>None\<close> does not fail the export that contains the call:
  with a retrieved certificate and a list from the correlator the report is produced, its
  \<^verbatim>\<open>cipher\<close> field being null.
\<close>

theorem analyze_null_on_failure:
  "(\<exists>r. analyze_cipher_strength net d = Inr r) \<and>
   (\<forall>e. create_connection net (d, 443) None = Inl e \<longrightarrow>
        analyze_cipher_strength net d = Inr None) \<and>
   (\<forall>sock e. create_connection net (d, 443) None = Inr sock \<and> wrap_socket net sock d = Inl e \<longrightarrow>
        analyze_cipher_strength net d = Inr None) \<and>
   (\<forall>sock ssock. create_connection net (d, 443) None = Inr sock \<and>
        wrap_socket net sock d = Inr ssock \<and> cipher ssock = None \<longrightarrow>
        analyze_cipher_strength net d = Inr None) \<and>
   (\<forall>net1 net3 now cache info cache1 logs n.
        analyze_cipher_strength net d = Inr None \<and>
        get_cert_info net1 cache d = (Inr info, cache1) \<and>
        check_cert_transparency net3 d = Inr logs \<and> py_len logs = Inr n \<longrightarrow>
        export_json net1 net net3 now cache d =
          (Inr (''ssl_report_'' @ replace_dots d @ ''.json'',
                JObj [(''domain'', JStr d),
                      (''certificate'', cert_info_json info),
                      (''cipher'', JNull),
                      (''ct_log_entries'', JInt (int n)),
                      (''scan_time'', JStr (isoformat now))]),
           cache1))"
proof -
  have 5: "export_json net1 net net3 now cache d =
          (Inr (''ssl_report_'' @ replace_dots d @ ''.json'',
                JObj [(''domain'', JStr d),
                      (''certificate'', cert_info_json info),
                      (''cipher'', JNull),
                      (''ct_log_entries'', JInt (int n)),
                      (''scan_time'', JStr (isoformat now))]),
           cache1)"
    if "analyze_cipher_strength net d = Inr None"
      "get_cert_info net1 cache d = (Inr info, cache1)"
      "check_cert_transparency net3 d = Inr logs" "py_len logs = Inr n"
    for net1 net3 :: "'a network" and now cache info cache1 logs n
    using export_json_success[OF that(2) that(1) that(3) that(4), of now]
    by (simp add: cipher_info_json_def)
  show ?thesis
    using analyze_always_returns[of net d] analyze_connection_failure[of net d]
      analyze_handshake_failure[of net d] analyze_no_cipher[of net d] 5
    by blast
qed

text \<open>
  The theorem at an unreachable host, at a server that fails the handshake, at a session
  without a cipher, and in an export whose analyzer meets the failed handshake.
\<close>

theorem analyze_null_on_failure_witness:
  "analyze_cipher_strength (failing OSError) ''www.example.com'' = Inr None \<and>
   analyze_cipher_strength no_handshake ''www.example.com'' = Inr None \<and>
   analyze_cipher_strength (server (Some site_cert) None empty_list_response) ''www.example.com''
     = Inr None \<and>
   fst (export_json (server (Some site_cert) None empty_list_response) no_handshake
          (server None None two_entries_response) new_year_2025 Map.empty ''www.example.com'')
     = Inr (''ssl_report_www_example_com.json'',
            JObj [(''domain'', JStr ''www.example.com''),
                  (''certificate'',
                     JObj [(''domain'', JStr ''www.example.com''),
                           (''issuer'', JStr ''Example Org''),
                           (''valid_from'', JStr ''Jan  1 00:00:00 2025 GMT''),
                           (''valid_to'', JStr ''Jan 31 01:00:00 2025 GMT''),
                           (''serial_number'', JStr ''0A1B''),
                           (''is_self_signed'', JBool False)]),
                  (''cipher'', JNull),
                  (''ct_log_entries'', JInt 2),
                  (''scan_time'', JStr ''2025-01-01T00:00:00'')])"
proof -
  let ?d = "''www.example.com''"
  let ?site = "server (Some site_cert) None empty_list_response"
  let ?ct = "server None None two_entries_response :: unit network"
  let ?info = "\<lparr> domain = ''www.example.com'', issuer = ''Example Org'',
             valid_from = ''Jan  1 00:00:00 2025 GMT'', valid_to = ''Jan 31 01:00:00 2025 GMT'',
             serial_number = ''0A1B'', is_self_signed = False \<rparr>"
  have c1: "create_connection (failing OSError) (?d, 443) None = Inl OSError"
    by (simp add: failing_def)
  have r1: "analyze_cipher_strength (failing OSError) ?d = Inr None"
    using analyze_null_on_failure[of "failing OSError" ?d, THEN conjunct2, THEN conjunct1]
      c1 by blast
  have c2: "create_connection no_handshake (?d, 443) None = Inr () \<and>
            wrap_socket no_handshake () ?d = Inl SSLError"
    by (simp add: no_handshake_def failing_def)
  have r2: "analyze_cipher_strength no_handshake ?d = Inr None"
    using analyze_null_on_failure[of no_handshake ?d,
        THEN conjunct2, THEN conjunct2, THEN conjunct1] c2 by blast
  have c3: "create_connection ?site (?d, 443) None = Inr () \<and>
            wrap_socket ?site () ?d = Inr \<lparr> getpeercert = Some site_cert, cipher = None \<rparr> \<and>
            cipher \<lparr> getpeercert = Some site_cert, cipher = None \<rparr> = None"
    by (simp add: server_def)
  have r3: "analyze_cipher_strength ?site ?d = Inr None"
    using analyze_null_on_failure[of ?site ?d,
        THEN conjunct2, THEN conjunct2, THEN conjunct2, THEN conjunct1] c3 by blast
  have f2: "fst (get_cert_info ?site Map.empty ?d) = Inr ?info"
    by code_simp
  then have g2: "get_cert_info ?site Map.empty ?d
      = (Inr ?info, snd (get_cert_info ?site Map.empty ?d))"
    by (simp add: prod_eq_iff)
  have c: "check_cert_transparency ?ct ?d
      = Inr (JArr [JObj [(''id'', JInt 1)], JObj [(''id'', JInt 2)]])"
    by code_simp
  have l: "py_len (JArr [JObj [(''id'', JInt 1)], JObj [(''id'', JInt 2)]]) = Inr 2"
    by simp
  have "export_json ?site no_handshake ?ct new_year_2025 Map.empty ?d =
           (Inr (''ssl_report_'' @ replace_dots ?d @ ''.json'',
                 JObj [(''domain'', JStr ?d),
                       (''certificate'', cert_info_json ?info),
                       (''cipher'', JNull),
                       (''ct_log_entries'', JInt (int 2)),
                       (''scan_time'', JStr (isoformat new_year_2025))]),
            snd (get_cert_info ?site Map.empty ?d))"
    using analyze_null_on_failure[of no_handshake ?d,
        THEN conjunct2, THEN conjunct2, THEN conjunct2, THEN conjunct2, rule_format,
        OF conjI[OF r2 conjI[OF g2 conjI[OF c l]]]] .
  then have "fst (export_json ?site no_handshake ?ct new_year_2025 Map.empty ?d) =
           Inr (''ssl_report_'' @ replace_dots ?d @ ''.json'',
                 JObj [(''domain'', JStr ?d),
                       (''certificate'', cert_info_json ?info),
                       (''cipher'', JNull),
                       (''ct_log_entries'', JInt (int 2)),
                       (''scan_time'', JStr (isoformat new_year_2025))])"
    by (simp only: fst_conv)
  moreover have "replace_dots ?d = ''www_example_com''" by code_simp
  moreover have "isoformat new_year_2025 = ''2025-01-01T00:00:00''" by code_simp
  moreover have "cert_info_json ?info = JObj [(''domain'', JStr ''www.example.com''),
                           (''issuer'', JStr ''Example Org''),
                           (''valid_from'', JStr ''Jan  1 00:00:00 2025 GMT''),
                           (''valid_to'', JStr ''Jan 31 01:00:00 2025 GMT''),
                           (''serial_number'', JStr ''0A1B''),
                           (''is_self_signed'', JBool False)]"
    by (simp add: cert_info_json_def)
  ultimately have r4: "fst (export_json ?site no_handshake ?ct new_year_2025 Map.empty ?d)
     = Inr (''ssl_report_www_example_com.json'',
            JObj [(''domain'', JStr ''www.example.com''),
                  (''certificate'',
                     JObj [(''domain'', JStr ''www.example.com''),
                           (''issuer'', JStr ''Example Org''),
                           (''valid_from'', JStr ''Jan  1 00:00:00 2025 GMT''),
                           (''valid_to'', JStr ''Jan 31 01:00:00 2025 GMT''),
                           (''serial_number'', JStr ''0A1B''),
                           (''is_self_signed'', JBool False)]),
                  (''cipher'', JNull),
                  (''ct_log_entries'', JInt 2),
                  (''scan_time'', JStr ''2025-01-01T00:00:00'')])"
    by simp
  from r1 r2 r3 r4 show ?thesis by blast
qed

lemma correlate_request_failure:
  "requests_get net (CRTSH_URL d) (Some 10) = Inl e \<Longrightarrow>
   check_cert_transparency net d = Inr (JArr [])"
  by (simp add: check_cert_transparency_def except_Exception_def)

lemma correlate_reads_one_request:
  "requests_get net' (CRTSH_URL d) (Some 10) = requests_get net (CRTSH_URL d) (Some 10) \<Longrightarrow>
   check_cert_transparency net' d = check_cert_transparency net d"
  by (simp add: check_cert_transparency_def)

lemma sockets_without_timeout:
  "create_connection net' (d, 443) None = create_connection net (d, 443) None \<Longrightarrow>
   wrap_socket net' = wrap_socket net \<Longrightarrow>
   get_cert_info net' cache d = get_cert_info net cache d \<and>
   analyze_cipher_strength net' d = analyze_cipher_strength net d"
  by (simp add: get_cert_info_def analyze_cipher_strength_def
      cong: sum.case_cong option.case_cong)

text \<open>
  Claim C5, as the code has it. The request to the aggregator is the only operation that
  carries a deadline, the fixed timeout of 10; the result of the correlator depends on the
  network through that one request only. The retriever and the analyzer connect without a
  timeout argument: their results depend on the network through the connection made
  without one and the handshake only. A timeout is not reported as such by the correlator
  and the analyzer, which return the empty list and \<^verbatim>\<open>None\<close>; in the retriever the
  timeout of the connection or of the handshake reaches the caller as it was raised, and
  the cache stays as it was.
\<close>

theorem timeouts_as_coded:
  "(requests_get net (CRTSH_URL d) (Some 10) = Inl TimeoutError \<longrightarrow>
      check_cert_transparency net d = Inr (JArr [])) \<and>
   (create_connection net (d, 443) None = Inl TimeoutError \<longrightarrow>
      analyze_cipher_strength net d = Inr None \<and>
      (cache d = None \<longrightarrow> get_cert_info net cache d = (Inl TimeoutError, cache))) \<and>
   (\<forall>sock. create_connection net (d, 443) None = Inr sock \<and>
      wrap_socket net sock d = Inl TimeoutError \<longrightarrow>
      analyze_cipher_strength net d = Inr None \<and>
      (cache d = None \<longrightarrow> get_cert_info net cache d = (Inl TimeoutError, cache))) \<and>
   (\<forall>net'. requests_get net' (CRTSH_URL d) (Some 10) = requests_get net (CRTSH_URL d) (Some 10)
      \<longrightarrow> check_cert_transparency net' d = check_cert_transparency net d) \<and>
   (\<forall>net'. create_connection net' (d, 443) None = create_connection net (d, 443) None \<and>
      wrap_socket net' = wrap_socket net \<longrightarrow>
      get_cert_info net' cache d = get_cert_info net cache d \<and>
      analyze_cipher_strength net' d = analyze_cipher_strength net d)"
  using correlate_request_failure[where net = net and d = d]
    analyze_connection_failure[where net = net and d = d]
    analyze_handshake_failure[where net = net and d = d]
    get_cert_info_connection_failure[where net = net and d = d and cache = cache]
    get_cert_info_handshake_failure[where net = net and d = d and cache = cache]
    correlate_reads_one_request[where net = net and d = d]
    sockets_without_timeout[where net = net and d = d and cache = cache]
  by blast

text \<open>
  The theorem on a network where every operation times out, and at a host that would
  accept the connection from a caller with a timeout.
\<close>

theorem timeouts_as_coded_witness:
  "check_cert_transparency (failing TimeoutError) ''www.example.com'' = Inr (JArr []) \<and>
   analyze_cipher_strength (failing TimeoutError) ''www.example.com'' = Inr None \<and>
   get_cert_info (failing TimeoutError) Map.empty ''www.example.com''
     = (Inl TimeoutError, Map.empty) \<and>
   get_cert_info
      needs_deadline Map.empty ''www.example.com''
     = (Inl TimeoutError, Map.empty)"
proof -
  let ?d = "''www.example.com''"
  let ?net = "failing TimeoutError"
  let ?net' = needs_deadline
  note T = timeouts_as_coded[of ?net ?d Map.empty]
  have q: "requests_get ?net (CRTSH_URL ?d) (Some 10) = Inl TimeoutError"
    by (simp add: failing_def)
  have c: "create_connection ?net (?d, 443) None = Inl TimeoutError"
    by (simp add: failing_def)
  have r1: "check_cert_transparency ?net ?d = Inr (JArr [])"
    using T[THEN conjunct1] q by blast
  have r2: "analyze_cipher_strength ?net ?d = Inr None"
    using T[THEN conjunct2, THEN conjunct1] c by blast
  have r3: "get_cert_info ?net Map.empty ?d = (Inl TimeoutError, Map.empty)"
    using T[THEN conjunct2, THEN conjunct1] c by simp
  have same: "create_connection ?net' (?d, 443) None = create_connection ?net (?d, 443) None \<and>
      wrap_socket ?net' = wrap_socket ?net"
    by (simp add: failing_def needs_deadline_def)
  have "get_cert_info ?net' Map.empty ?d = get_cert_info ?net Map.empty ?d"
    using T[THEN conjunct2, THEN conjunct2, THEN conjunct2, THEN conjunct2, rule_format, OF same]
    by blast
  with r3 have r4: "get_cert_info ?net' Map.empty ?d = (Inl TimeoutError, Map.empty)"
    by simp
  from r1 r2 r3 r4 show ?thesis by blast
qed

text \<open>
  Claim C5, as the specification states it, fails: when the request of the correlator and
  the connection of the analyzer time out, neither raises a timeout error, the one returns
  the empty list and the other \<^verbatim>\<open>None\<close>; and a host that accepts a connection made with a
  timeout of 10 is not reached by the retriever or the analyzer, which set no deadline.
\<close>

theorem timeout_is_swallowed:
  "check_cert_transparency (failing TimeoutError) ''www.example.com'' = Inr (JArr []) \<and>
   analyze_cipher_strength (failing TimeoutError) ''www.example.com'' = Inr None \<and>
   create_connection needs_deadline (''www.example.com'', 443) (Some 10) = Inr () \<and>
   fst (get_cert_info needs_deadline Map.empty ''www.example.com'') = Inl TimeoutError \<and>
   analyze_cipher_strength needs_deadline ''www.example.com'' = Inr None"
  by code_simp

end
